theory Spec2Isabelle
  imports Main "HOL-Library.AList" "HOL-Library.Sublist"
begin

section \<open>Python strings\<close>

text \<open>
  A Python \<open>str\<close> is a sequence of Unicode code points and \<open>len\<close> counts code points,
  so a string is a list of code points here (the integers that \<open>ord\<close> returns). ASCII text is written \<open>asc ''...''\<close>;
  every other character is written as its code point (\<open>0x1EDD\<close> is the letter o with
  horn and grave of "Th\<dots>i").
\<close>

type_synonym cp = int

type_synonym ustring = "cp list"

definition asc :: "string \<Rightarrow> ustring" where
  "asc s = map of_char s"

text \<open>
  The character tables below are those of Python for Basic Latin, Latin-1, Latin
  Extended-A (U+0000 to U+017F), the two Vietnamese letters of Latin Extended-B (O and U
  with horn) and Latin Extended Additional (U+1E00 to U+1EFF), which is every letter of
  Vietnamese and English; \<open>is_space\<close> is complete. Code points of other scripts are not
  tabulated: they are treated as caseless, as no digits and, above U+024F, as no word
  characters.
\<close>

definition is_space :: "cp \<Rightarrow> bool" where
  \<comment> \<open>\<open>str.isspace\<close> of one character, which is also \<open>\s\<close> of a \<open>str\<close> pattern\<close>
  "is_space c =
     (if c \<le> 32 then (9 \<le> c \<and> c \<le> 13) \<or> 28 \<le> c
      else if c < 0x85 then False
      else c = 0x85 \<or> c = 0xA0 \<or> c = 0x1680 \<or> (0x2000 \<le> c \<and> c \<le> 0x200A) \<or> c = 0x2028
           \<or> c = 0x2029 \<or> c = 0x202F \<or> c = 0x205F \<or> c = 0x3000)"

definition is_digit :: "cp \<Rightarrow> bool" where
  \<comment> \<open>\<open>\d\<close>\<close>
  "is_digit c = (0x30 \<le> c \<and> c \<le> 0x39)"

definition is_word :: "cp \<Rightarrow> bool" where
  \<comment> \<open>\<open>\w\<close>: alphanumeric or underscore\<close>
  "is_word c = (is_digit c \<or> (0x41 \<le> c \<and> c \<le> 0x5A) \<or> c = 0x5F \<or> (0x61 \<le> c \<and> c \<le> 0x7A)
     \<or> c = 0xAA \<or> c = 0xB2 \<or> c = 0xB3 \<or> c = 0xB5 \<or> c = 0xB9 \<or> c = 0xBA
     \<or> (0xBC \<le> c \<and> c \<le> 0xBE)
     \<or> (0xC0 \<le> c \<and> c \<le> 0x24F \<and> c \<noteq> 0xD7 \<and> c \<noteq> 0xF7)
     \<or> (0x1E00 \<le> c \<and> c \<le> 0x1EFF))"

definition cp_lower :: "cp \<Rightarrow> cp" where
  \<comment> \<open>the simple lower-case mapping of one code point\<close>
  "cp_lower c =
     (if c < 0x41 then c
      else if c \<le> 0x5A then c + 32
      else if c < 0xC0 then c
      else if c \<le> 0xDE then (if c = 0xD7 then c else c + 32)
      else if c < 0x100 then c
      else if c \<le> 0x17F then
        (if c = 0x130 then 0x69
         else if c = 0x178 then 0xFF
         else if c \<le> 0x137 \<or> (0x14A \<le> c \<and> c \<le> 0x177) then (if even c then c + 1 else c)
         else if (0x139 \<le> c \<and> c \<le> 0x148) \<or> 0x179 \<le> c then (if odd c \<and> c \<noteq> 0x17F then c + 1 else c)
         else c)
      else if c < 0x1E00 then (if c = 0x1A0 \<or> c = 0x1AF then c + 1 else c)
      else if c \<le> 0x1EFF then
        (if c = 0x1E9E then 0xDF
         else if c \<le> 0x1E95 \<or> 0x1EA0 \<le> c then (if even c then c + 1 else c)
         else c)
      else c)"

definition cp_upper :: "cp \<Rightarrow> cp" where
  \<comment> \<open>the simple upper-case mapping of one code point\<close>
  "cp_upper c =
     (if c < 0x61 then c
      else if c \<le> 0x7A then c - 32
      else if c < 0xE0 then (if c = 0xB5 then 0x39C else c)
      else if c \<le> 0xFE then (if c = 0xF7 then c else c - 32)
      else if c = 0xFF then 0x178
      else if c \<le> 0x17F then
        (if c = 0x131 then 0x49
         else if c = 0x17F then 0x53
         else if c \<le> 0x137 \<or> (0x14A \<le> c \<and> c \<le> 0x177) then (if odd c then c - 1 else c)
         else if (0x139 \<le> c \<and> c \<le> 0x148) \<or> 0x179 \<le> c then (if even c then c - 1 else c)
         else c)
      else if c < 0x1E00 then (if c = 0x1A1 \<or> c = 0x1B0 then c - 1 else c)
      else if c \<le> 0x1EFF then
        (if c = 0x1E9B then 0x1E60
         else if c \<le> 0x1E95 \<or> 0x1EA0 \<le> c then (if odd c then c - 1 else c)
         else c)
      else c)"

definition cp_fold :: "cp \<Rightarrow> cp" where
  \<comment> \<open>the key two characters share when \<open>re.IGNORECASE\<close> identifies them: the lower-case
      form, with dotless i, long s and long s with dot filed under i, s and s with dot\<close>
  "cp_fold c =
     (let l = cp_lower c
      in if l < 0x131 then l
         else if l = 0x131 then 0x69 else if l = 0x17F then 0x73 else if l = 0x1E9B then 0x1E61 else l)"

definition lower :: "ustring \<Rightarrow> ustring" where
  \<comment> \<open>\<open>str.lower()\<close>: the full mapping, under which capital I with dot above (U+0130)
      becomes the two code points i, combining dot above\<close>
  "lower s = concat (map (\<lambda>c. if c = 0x130 then [0x69, 0x307] else [cp_lower c]) s)"

definition strip :: "ustring \<Rightarrow> ustring" where
  \<comment> \<open>\<open>str.strip()\<close>\<close>
  "strip s = rev (dropWhile is_space (rev (dropWhile is_space s)))"

fun split_on :: "cp \<Rightarrow> ustring \<Rightarrow> ustring list" where
  \<comment> \<open>\<open>s.split(sep)\<close> for a one-character separator: never the empty list\<close>
  "split_on sep [] = [[]]"
| "split_on sep (c # s) =
     (if c = sep then [] # split_on sep s
      else (case split_on sep s of l # ls \<Rightarrow> (c # l) # ls | [] \<Rightarrow> [[c]]))"

fun join :: "ustring \<Rightarrow> ustring list \<Rightarrow> ustring" where
  \<comment> \<open>\<open>sep.join(parts)\<close>\<close>
  "join sep [] = []"
| "join sep [x] = x"
| "join sep (x # y # ys) = x @ sep @ join sep (y # ys)"

fun starts_with :: "ustring \<Rightarrow> ustring \<Rightarrow> bool" where
  \<comment> \<open>\<open>starts_with p s\<close> is \<open>s.startswith(p)\<close>\<close>
  "starts_with [] s = True"
| "starts_with (a # p) [] = False"
| "starts_with (a # p) (c # s) = (if a = c then starts_with p s else False)"

fun contains :: "ustring \<Rightarrow> ustring \<Rightarrow> bool" where
  \<comment> \<open>\<open>contains p s\<close> is \<open>p in s\<close>\<close>
  "contains p [] = (p = [])"
| "contains p (c # s) = (if starts_with p (c # s) then True else contains p s)"

definition ends_with :: "ustring \<Rightarrow> ustring \<Rightarrow> bool" where
  \<comment> \<open>\<open>ends_with p s\<close> is \<open>s.endswith(p)\<close>\<close>
  "ends_with p s = starts_with (rev p) (rev s)"

fun replace_skip :: "ustring \<Rightarrow> ustring \<Rightarrow> nat \<Rightarrow> ustring \<Rightarrow> ustring" where
  \<comment> \<open>\<open>s.replace(old, new)\<close> for a non-empty \<open>old\<close>, left to right without overlaps;
      the counter is the number of characters of a found occurrence still to be dropped\<close>
  "replace_skip old new k [] = []"
| "replace_skip old new (Suc k) (c # s) = replace_skip old new k s"
| "replace_skip old new 0 (c # s) =
     (if starts_with old (c # s) then new @ replace_skip old new (length old - 1) s
      else c # replace_skip old new 0 s)"

definition replace :: "ustring \<Rightarrow> ustring \<Rightarrow> ustring \<Rightarrow> ustring" where
  "replace old new s = replace_skip old new 0 s"

section \<open>Regular expressions\<close>

text \<open>
  The patterns of the program are values of \<open>rx\<close>, one constructor for each construct
  of Python's \<open>re\<close> syntax that the program uses. The matcher follows \<open>re\<close>'s
  backtracking search: \<open>rx_ends\<close> lists the ways a pattern can match at a position,
  in the order in which \<open>re\<close> tries them, so the head of the list is the match that
  \<open>re\<close> reports.
\<close>

record rflags =
  ignorecase :: bool
  multiline :: bool
  dotall :: bool

datatype cset =
    Ch cp           \<comment> \<open>one character\<close>
  | Rng cp cp       \<comment> \<open>\<open>a-b\<close>\<close>
  | Space           \<comment> \<open>\<open>\s\<close>\<close>
  | Digit           \<comment> \<open>\<open>\d\<close>\<close>
  | Word            \<comment> \<open>\<open>\w\<close>\<close>

datatype rx =
    Lit cp            \<comment> \<open>a literal character\<close>
  | Dot               \<comment> \<open>\<open>.\<close>\<close>
  | Set "cset list"   \<comment> \<open>\<open>[...]\<close>, and \<open>\s\<close>, \<open>\d\<close> outside brackets\<close>
  | NSet "cset list"  \<comment> \<open>\<open>[^...]\<close>\<close>
  | Bol               \<comment> \<open>\<open>^\<close>\<close>
  | Eol               \<comment> \<open>\<open>$\<close>\<close>
  | Eps               \<comment> \<open>the empty pattern\<close>
  | Seq rx rx
  | Alt rx rx         \<comment> \<open>\<open>a|b\<close>\<close>
  | Star rx           \<comment> \<open>\<open>a*\<close>\<close>
  | LStar rx          \<comment> \<open>\<open>a*?\<close>\<close>
  | Plus rx           \<comment> \<open>\<open>a+\<close>\<close>
  | Opt rx            \<comment> \<open>\<open>a?\<close>\<close>
  | Rep nat rx        \<comment> \<open>\<open>a{n}\<close>\<close>
  | Look rx           \<comment> \<open>\<open>(?=a)\<close>\<close>
  | Grp nat rx        \<comment> \<open>the capturing group number n\<close>

definition cat :: "rx list \<Rightarrow> rx" where
  "cat rs = foldr Seq rs Eps"

definition str :: "ustring \<Rightarrow> rx" where
  \<comment> \<open>a run of literal characters, which is also what \<open>re.escape\<close> of a string matches\<close>
  "str s = foldr (\<lambda>c r. Seq (Lit c) r) s Eps"

definition alts :: "rx list \<Rightarrow> rx" where
  \<comment> \<open>\<open>a|b|c\<close>, for a non-empty list\<close>
  "alts rs = foldr Alt (butlast rs) (last rs)"

fun in_cset :: "cp \<Rightarrow> cset \<Rightarrow> bool" where
  "in_cset c (Ch a) = (c = a)"
| "in_cset c (Rng a b) = (a \<le> c \<and> c \<le> b)"
| "in_cset c Space = is_space c"
| "in_cset c Digit = is_digit c"
| "in_cset c Word = is_word c"

definition in_set :: "rflags \<Rightarrow> cset list \<Rightarrow> cp \<Rightarrow> bool" where
  \<comment> \<open>under IGNORECASE a class holds a character when it holds one of its case variants\<close>
  "in_set f cs c =
     (if ignorecase f
      then list_ex (\<lambda>i. in_cset c i \<or> in_cset (cp_lower c) i \<or> in_cset (cp_upper (cp_lower c)) i) cs
      else list_ex (in_cset c) cs)"

definition lit_eq :: "rflags \<Rightarrow> cp \<Rightarrow> cp \<Rightarrow> bool" where
  "lit_eq f a c = (if ignorecase f then cp_fold a = cp_fold c else a = c)"

text \<open>
  A matcher state: the character before the position (None at the start of the
  string), the text from the position on, and the groups captured so far.
\<close>

type_synonym mstate = "cp option \<times> ustring \<times> (nat \<times> ustring) list"

definition one_char :: "(cp \<Rightarrow> bool) \<Rightarrow> mstate \<Rightarrow> mstate list" where
  "one_char P st =
     (case st of (p, s, g) \<Rightarrow>
        (case s of [] \<Rightarrow> [] | c # s' \<Rightarrow> if P c then [(Some c, s', g)] else []))"

definition advances :: "mstate \<Rightarrow> mstate \<Rightarrow> bool" where
  "advances st st' = (length (fst (snd st')) < length (fst (snd st)))"

text \<open>
  Repetition. One round of a repeated pattern has to consume a character (\<open>re\<close> stops a
  repetition whose body matched the empty string), so the number of rounds is at most the
  number of characters left, which is the bound \<open>k\<close> both functions are called with.
\<close>

fun star_greedy :: "(mstate \<Rightarrow> mstate list) \<Rightarrow> nat \<Rightarrow> mstate \<Rightarrow> mstate list" where
  "star_greedy step 0 st = [st]"
| "star_greedy step (Suc k) st =
     concat (map (\<lambda>st'. if advances st st' then star_greedy step k st' else []) (step st)) @ [st]"

fun star_lazy :: "(mstate \<Rightarrow> mstate list) \<Rightarrow> nat \<Rightarrow> mstate \<Rightarrow> mstate list" where
  "star_lazy step 0 st = [st]"
| "star_lazy step (Suc k) st =
     st # concat (map (\<lambda>st'. if advances st st' then star_lazy step k st' else []) (step st))"

definition remaining :: "mstate \<Rightarrow> nat" where
  "remaining st = length (fst (snd st))"

definition capture :: "nat \<Rightarrow> mstate \<Rightarrow> mstate \<Rightarrow> mstate" where
  \<comment> \<open>record as group n the text between the two states\<close>
  "capture n st st' =
     (case st of (p, s, g) \<Rightarrow> (case st' of (p', s', g') \<Rightarrow>
        (p', s', (n, take (length s - length s') s) # g')))"

primrec rx_ends :: "rflags \<Rightarrow> rx \<Rightarrow> mstate \<Rightarrow> mstate list" where
  "rx_ends f (Lit a) st = one_char (lit_eq f a) st"
| "rx_ends f Dot st = one_char (\<lambda>c. if dotall f then True else c \<noteq> 10) st"
| "rx_ends f (Set cs) st = one_char (in_set f cs) st"
| "rx_ends f (NSet cs) st = one_char (\<lambda>c. \<not> in_set f cs c) st"
| "rx_ends f Bol st =
     (if fst st = None then [st] else if multiline f \<and> fst st = Some 10 then [st] else [])"
| "rx_ends f Eol st =
     (case fst (snd st) of
        [] \<Rightarrow> [st]
      | c # s \<Rightarrow>
          if multiline f then (if c = 10 then [st] else [])
          else (if c = 10 \<and> s = [] then [st] else []))"
| "rx_ends f Eps st = [st]"
| "rx_ends f (Seq a b) st = concat (map (rx_ends f b) (rx_ends f a st))"
| "rx_ends f (Alt a b) st = rx_ends f a st @ rx_ends f b st"
| "rx_ends f (Star a) st = star_greedy (rx_ends f a) (remaining st) st"
| "rx_ends f (LStar a) st = star_lazy (rx_ends f a) (remaining st) st"
| "rx_ends f (Plus a) st =
     concat (map (\<lambda>st'. star_greedy (rx_ends f a) (remaining st') st') (rx_ends f a st))"
| "rx_ends f (Opt a) st = rx_ends f a st @ [st]"
| "rx_ends f (Rep n a) st = ((\<lambda>sts. concat (map (rx_ends f a) sts)) ^^ n) [st]"
| "rx_ends f (Look a) st = (if rx_ends f a st = [] then [] else [st])"
| "rx_ends f (Grp n a) st = map (capture n st) (rx_ends f a st)"

text \<open>
  A match object: where the match starts, the text it matched, and its groups.
\<close>

record rmatch =
  m_start :: nat
  m_group :: ustring
  m_groups :: "(nat \<times> ustring) list"

definition match_at :: "rflags \<Rightarrow> rx \<Rightarrow> nat \<Rightarrow> cp option \<Rightarrow> ustring \<Rightarrow> rmatch option" where
  \<comment> \<open>the match \<open>re\<close> finds at position i, if any; p is the character before, s the text from i\<close>
  "match_at f r i p s =
     (case rx_ends f r (p, s, []) of
        [] \<Rightarrow> None
      | st # _ \<Rightarrow> Some \<lparr>m_start = i, m_group = take (length s - remaining st) s,
                       m_groups = snd (snd st)\<rparr>)"

fun search_from :: "rflags \<Rightarrow> rx \<Rightarrow> nat \<Rightarrow> cp option \<Rightarrow> ustring \<Rightarrow> rmatch option" where
  "search_from f r i p [] = match_at f r i p []"
| "search_from f r i p (c # s) =
     (case match_at f r i p (c # s) of
        Some m \<Rightarrow> Some m
      | None \<Rightarrow> search_from f r (Suc i) (Some c) s)"

definition re_search :: "rx \<Rightarrow> ustring \<Rightarrow> rflags \<Rightarrow> rmatch option" where
  \<comment> \<open>\<open>re.search(pattern, string, flags)\<close>: the leftmost match\<close>
  "re_search r s f = search_from f r 0 None s"

definition re_match :: "rx \<Rightarrow> ustring \<Rightarrow> rflags \<Rightarrow> rmatch option" where
  \<comment> \<open>\<open>re.match(pattern, string, flags)\<close>: a match at the start of the string only\<close>
  "re_match r s f = match_at f r 0 None s"

text \<open>
  \<open>re.sub\<close> and \<open>re.findall\<close> walk the string from left to right and restart after each
  match. The counter is the number of characters of the current match still to be
  passed over. No pattern of the program matches the empty string; where a pattern
  does, the replacement is made and the walk moves on by one character.
\<close>

fun sub_scan :: "rflags \<Rightarrow> rx \<Rightarrow> (rmatch \<Rightarrow> ustring) \<Rightarrow> nat \<Rightarrow> nat \<Rightarrow> cp option \<Rightarrow> ustring \<Rightarrow> ustring" where
  "sub_scan f r repl k i p [] =
     (case (if k = 0 then match_at f r i p [] else None) of
        None \<Rightarrow> [] | Some m \<Rightarrow> repl m)"
| "sub_scan f r repl (Suc k) i p (c # s) = sub_scan f r repl k (Suc i) (Some c) s"
| "sub_scan f r repl 0 i p (c # s) =
     (case match_at f r i p (c # s) of
        None \<Rightarrow> c # sub_scan f r repl 0 (Suc i) (Some c) s
      | Some m \<Rightarrow>
          (if m_group m = [] then repl m @ c # sub_scan f r repl 0 (Suc i) (Some c) s
           else repl m @ sub_scan f r repl (length (m_group m) - 1) (Suc i) (Some c) s))"

definition re_sub_fn :: "rx \<Rightarrow> (rmatch \<Rightarrow> ustring) \<Rightarrow> ustring \<Rightarrow> rflags \<Rightarrow> ustring" where
  \<comment> \<open>\<open>re.sub(pattern, function, string, flags=flags)\<close>\<close>
  "re_sub_fn r repl s f = sub_scan f r repl 0 0 None s"

datatype tpl = T ustring | G nat

definition expand :: "tpl list \<Rightarrow> rmatch \<Rightarrow> ustring" where
  \<comment> \<open>a replacement template: text and group references \<open>\1\<close>, \<open>\2\<close>\<close>
  "expand t m =
     concat (map (\<lambda>x. case x of T s \<Rightarrow> s
                         | G n \<Rightarrow> (case map_of (m_groups m) n of Some s \<Rightarrow> s | None \<Rightarrow> [])) t)"

definition re_sub :: "rx \<Rightarrow> tpl list \<Rightarrow> ustring \<Rightarrow> rflags \<Rightarrow> ustring" where
  \<comment> \<open>\<open>re.sub(pattern, template, string, flags=flags)\<close>\<close>
  "re_sub r t s f = re_sub_fn r (expand t) s f"

fun findall_scan :: "rflags \<Rightarrow> rx \<Rightarrow> nat \<Rightarrow> nat \<Rightarrow> cp option \<Rightarrow> ustring \<Rightarrow> ustring list" where
  "findall_scan f r k i p [] =
     (case (if k = 0 then match_at f r i p [] else None) of
        None \<Rightarrow> [] | Some m \<Rightarrow> [m_group m])"
| "findall_scan f r (Suc k) i p (c # s) = findall_scan f r k (Suc i) (Some c) s"
| "findall_scan f r 0 i p (c # s) =
     (case match_at f r i p (c # s) of
        None \<Rightarrow> findall_scan f r 0 (Suc i) (Some c) s
      | Some m \<Rightarrow> m_group m # findall_scan f r (length (m_group m) - 1) (Suc i) (Some c) s)"

definition re_findall :: "rx \<Rightarrow> ustring \<Rightarrow> rflags \<Rightarrow> ustring list" where
  \<comment> \<open>\<open>re.findall(pattern, string, flags)\<close> for a pattern without groups\<close>
  "re_findall r s f = findall_scan f r 0 0 None s"

definition NOFLAGS :: rflags where
  "NOFLAGS = \<lparr>ignorecase = False, multiline = False, dotall = False\<rparr>"

definition IGNORECASE :: rflags where
  "IGNORECASE = \<lparr>ignorecase = True, multiline = False, dotall = False\<rparr>"

definition IGNORECASE_MULTILINE :: rflags where
  "IGNORECASE_MULTILINE = \<lparr>ignorecase = True, multiline = True, dotall = False\<rparr>"

definition DOTALL_IGNORECASE :: rflags where
  "DOTALL_IGNORECASE = \<lparr>ignorecase = True, multiline = False, dotall = True\<rparr>"

section \<open>The text cleaner (text_cleaner.py, class TextCleaner)\<close>

text \<open>
  The pattern tables of the class, in the order of the source. Each pattern is preceded
  by its source text, a character outside ASCII written \<open>\uXXXX\<close>.
\<close>

definition company_noise_patterns :: "rx list" where
  \<open>company_noise_patterns =
     \<comment> \<open>Tr\u1EE5 s\u1EDF ch\u00EDnh.*?(?=\n[A-Z\u00C0\u00C1\u1EA2\u00C3\u1EA0]|\n\n|$)\<close>
    [cat [str (asc ''Tr'' @ [0x1EE5] @ asc '' s'' @ [0x1EDF] @ asc '' ch'' @ [0xED] @ asc ''nh''), LStar Dot, Look (alts [cat [Lit 10, Set [Rng 65 90, Ch 0xC0, Ch 0xC1, Ch 0x1EA2, Ch 0xC3, Ch 0x1EA0]], str ([10, 10]), Eol])],
     \<comment> \<open>Chi nh\u00E1nh.*?(?=\n[A-Z\u00C0\u00C1\u1EA2\u00C3\u1EA0]|\n\n|$)\<close>
     cat [str (asc ''Chi nh'' @ [0xE1] @ asc ''nh''), LStar Dot, Look (alts [cat [Lit 10, Set [Rng 65 90, Ch 0xC0, Ch 0xC1, Ch 0x1EA2, Ch 0xC3, Ch 0x1EA0]], str ([10, 10]), Eol])],
     \<comment> \<open>Head Office.*?(?=\n[A-Z\u00C0\u00C1\u1EA2\u00C3\u1EA0]|\n\n|$)\<close>
     cat [str (asc ''Head Office''), LStar Dot, Look (alts [cat [Lit 10, Set [Rng 65 90, Ch 0xC0, Ch 0xC1, Ch 0x1EA2, Ch 0xC3, Ch 0x1EA0]], str ([10, 10]), Eol])],
     \<comment> \<open>Hanoi Office.*?(?=\n[A-Z\u00C0\u00C1\u1EA2\u00C3\u1EA0]|\n\n|$)\<close>
     cat [str (asc ''Hanoi Office''), LStar Dot, Look (alts [cat [Lit 10, Set [Rng 65 90, Ch 0xC0, Ch 0xC1, Ch 0x1EA2, Ch 0xC3, Ch 0x1EA0]], str ([10, 10]), Eol])],
     \<comment> \<open>L\u1EA7u \d+.*?(?=\n[A-Z\u00C0\u00C1\u1EA2\u00C3\u1EA0]|\n\n|$)\<close>
     cat [str (asc ''L'' @ [0x1EA7] @ asc ''u ''), Plus (Set [Digit]), LStar Dot, Look (alts [cat [Lit 10, Set [Rng 65 90, Ch 0xC0, Ch 0xC1, Ch 0x1EA2, Ch 0xC3, Ch 0x1EA0]], str ([10, 10]), Eol])],
     \<comment> \<open>T\u1EA7ng \d+.*?(?=\n[A-Z\u00C0\u00C1\u1EA2\u00C3\u1EA0]|\n\n|$)\<close>
     cat [str (asc ''T'' @ [0x1EA7] @ asc ''ng ''), Plus (Set [Digit]), LStar Dot, Look (alts [cat [Lit 10, Set [Rng 65 90, Ch 0xC0, Ch 0xC1, Ch 0x1EA2, Ch 0xC3, Ch 0x1EA0]], str ([10, 10]), Eol])],
     \<comment> \<open>\d+-\d+-\d+\s+.*?Qu\u1EADn.*?(?=\n|$)\<close>
     cat [Plus (Set [Digit]), Lit 45, Plus (Set [Digit]), Lit 45, Plus (Set [Digit]), Plus (Set [Space]), LStar Dot, str (asc ''Qu'' @ [0x1EAD] @ asc ''n''), LStar Dot, Look (alts [Lit 10, Eol])],
     \<comment> \<open>Qu\u1EADn \d+.*?Tp\.?\s*H\u1ED3 Ch\u00ED Minh.*?(?=\n|$)\<close>
     cat [str (asc ''Qu'' @ [0x1EAD] @ asc ''n ''), Plus (Set [Digit]), LStar Dot, str (asc ''Tp''), Opt (Lit 46), Star (Set [Space]), str (asc ''H'' @ [0x1ED3] @ asc '' Ch'' @ [0xED] @ asc '' Minh''), LStar Dot, Look (alts [Lit 10, Eol])],
     \<comment> \<open>P\.\s*.*?Q\.\s*.*?H\u00E0 N\u1ED9i.*?(?=\n|$)\<close>
     cat [str (asc ''P.''), Star (Set [Space]), LStar Dot, str (asc ''Q.''), Star (Set [Space]), LStar Dot, str (asc ''H'' @ [0xE0] @ asc '' N'' @ [0x1ED9] @ asc ''i''), LStar Dot, Look (alts [Lit 10, Eol])],
     \<comment> \<open>Dist\.\s*\d+.*?HCM.*?(?=\n|$)\<close>
     cat [str (asc ''Dist.''), Star (Set [Space]), Plus (Set [Digit]), LStar Dot, str (asc ''HCM''), LStar Dot, Look (alts [Lit 10, Eol])],
     \<comment> \<open>Dong Da Dist.*?Hanoi.*?(?=\n|$)\<close>
     cat [str (asc ''Dong Da Dist''), LStar Dot, str (asc ''Hanoi''), LStar Dot, Look (alts [Lit 10, Eol])],
     \<comment> \<open>Website:.*?(?=\n|$)\<close>
     cat [str (asc ''Website:''), LStar Dot, Look (alts [Lit 10, Eol])],
     \<comment> \<open>Email:.*?(?=\n|$)\<close>
     cat [str (asc ''Email:''), LStar Dot, Look (alts [Lit 10, Eol])],
     \<comment> \<open>Hotline:.*?(?=\n|$)\<close>
     cat [str (asc ''Hotline:''), LStar Dot, Look (alts [Lit 10, Eol])],
     \<comment> \<open>Tel:.*?(?=\n|$)\<close>
     cat [str (asc ''Tel:''), LStar Dot, Look (alts [Lit 10, Eol])],
     \<comment> \<open>Phone:.*?(?=\n|$)\<close>
     cat [str (asc ''Phone:''), LStar Dot, Look (alts [Lit 10, Eol])],
     \<comment> \<open>\|\s*Hotline:.*?(?=\n|$)\<close>
     cat [Lit 124, Star (Set [Space]), str (asc ''Hotline:''), LStar Dot, Look (alts [Lit 10, Eol])],
     \<comment> \<open>\+84.*?\d{3}.*?\d{3}.*?(?=\n|$)\<close>
     cat [str (asc ''+84''), LStar Dot, Rep 3 (Set [Digit]), LStar Dot, Rep 3 (Set [Digit]), LStar Dot, Look (alts [Lit 10, Eol])],
     \<comment> \<open>www\.Robusta\.vn.*?(?=\n|$)\<close>
     cat [str (asc ''www.Robusta.vn''), LStar Dot, Look (alts [Lit 10, Eol])],
     \<comment> \<open>Learn@Robusta\.vn.*?(?=\n|$)\<close>
     cat [str (asc ''Learn@Robusta.vn''), LStar Dot, Look (alts [Lit 10, Eol])],
     \<comment> \<open>Page \d+ of \d+.*?(?=\n|$)\<close>
     cat [str (asc ''Page ''), Plus (Set [Digit]), str (asc '' of ''), Plus (Set [Digit]), LStar Dot, Look (alts [Lit 10, Eol])],
     \<comment> \<open>www\.Robusta\.vn\s+Page.*?(?=\n|$)\<close>
     cat [str (asc ''www.Robusta.vn''), Plus (Set [Space]), str (asc ''Page''), LStar Dot, Look (alts [Lit 10, Eol])],
     \<comment> \<open>Trang \d+.*?(?=\n|$)\<close>
     cat [str (asc ''Trang ''), Plus (Set [Digit]), LStar Dot, Look (alts [Lit 10, Eol])],
     \<comment> \<open>\u00A9.*?(?=\n|$)\<close>
     cat [Lit 0xA9, LStar Dot, Look (alts [Lit 10, Eol])],
     \<comment> \<open>Tr\u1EE5 s\u1EDF ch\u00EDnh.*?www\.Robusta\.vn\<close>
     cat [str (asc ''Tr'' @ [0x1EE5] @ asc '' s'' @ [0x1EDF] @ asc '' ch'' @ [0xED] @ asc ''nh''), LStar Dot, str (asc ''www.Robusta.vn'')],
     \<comment> \<open>Chi nh\u00E1nh.*?Learn@Robusta\.vn\<close>
     cat [str (asc ''Chi nh'' @ [0xE1] @ asc ''nh''), LStar Dot, str (asc ''Learn@Robusta.vn'')],
     \<comment> \<open>ROBUSTA.*?(?=\n|$)\<close>
     cat [str (asc ''ROBUSTA''), LStar Dot, Look (alts [Lit 10, Eol])],
     \<comment> \<open>Robusta.*?Technology.*?(?=\n|$)\<close>
     cat [str (asc ''Robusta''), LStar Dot, str (asc ''Technology''), LStar Dot, Look (alts [Lit 10, Eol])]]\<close>

definition fixes_dict :: "(ustring \<times> ustring) list" where
  "fixes_dict =
    [(asc ''h '' @ [0x1ECD] @ asc ''c'', asc ''h'' @ [0x1ECD] @ asc ''c''),
     (asc ''gi '' @ [0x1EA3] @ asc ''ng'', asc ''gi'' @ [0x1EA3] @ asc ''ng''),
     (asc ''vi '' @ [0x1EC7] @ asc ''n'', asc ''vi'' @ [0x1EC7] @ asc ''n''),
     (asc ''c'' @ [0x1A1] @ asc '' b '' @ [0x1EA3] @ asc ''n'', asc ''c'' @ [0x1A1] @ asc '' b'' @ [0x1EA3] @ asc ''n''),
     ([0x111, 0xE0] @ asc ''o t '' @ [0x1EA1] @ asc ''o'', [0x111, 0xE0] @ asc ''o t'' @ [0x1EA1] @ asc ''o''),
     (asc ''h'' @ [0x1EC7] @ asc '' th '' @ [0x1ED1] @ asc ''ng'', asc ''h'' @ [0x1EC7] @ asc '' th'' @ [0x1ED1] @ asc ''ng''),
     (asc ''c'' @ [0xF4] @ asc ''ng ngh '' @ [0x1EC7], asc ''c'' @ [0xF4] @ asc ''ng ngh'' @ [0x1EC7]),
     (asc ''ki '' @ [0x1EBF] @ asc ''n th '' @ [0x1EE9] @ asc ''c'', asc ''ki'' @ [0x1EBF] @ asc ''n th'' @ [0x1EE9] @ asc ''c''),
     ([0x1EE9] @ asc ''ng d '' @ [0x1EE5] @ asc ''ng'', [0x1EE9] @ asc ''ng d'' @ [0x1EE5] @ asc ''ng''),
     (asc ''qu'' @ [0x1EA3] @ asc ''n tr '' @ [0x1ECB], asc ''qu'' @ [0x1EA3] @ asc ''n tr'' @ [0x1ECB]),
     (asc ''th '' @ [0x1EF1] @ asc ''c hi'' @ [0x1EC7] @ asc ''n'', asc ''th'' @ [0x1EF1] @ asc ''c hi'' @ [0x1EC7] @ asc ''n''),
     (asc ''ph'' @ [0xE1] @ asc ''t tri '' @ [0x1EC3] @ asc ''n'', asc ''ph'' @ [0xE1] @ asc ''t tri'' @ [0x1EC3] @ asc ''n''),
     (asc ''ng'' @ [0x1B0] @ asc '' '' @ [0x1EDD] @ asc ''i'', asc ''ng'' @ [0x1B0, 0x1EDD] @ asc ''i''),
     (asc ''d '' @ [0x1EF1] @ asc '' '' @ [0xE1] @ asc ''n'', asc ''d'' @ [0x1EF1] @ asc '' '' @ [0xE1] @ asc ''n''),
     ([0x111] @ asc '' '' @ [0x1EC3], [0x111, 0x1EC3]),
     (asc ''c '' @ [0x1EA7] @ asc ''n'', asc ''c'' @ [0x1EA7] @ asc ''n''),
     (asc ''gi '' @ [0x1EDD], asc ''gi'' @ [0x1EDD]),
     ([0x111] @ asc '' '' @ [0x1EC1], [0x111, 0x1EC1]),
     (asc ''c '' @ [0x1EA5] @ asc ''p'', asc ''c'' @ [0x1EA5] @ asc ''p''),
     (asc ''c '' @ [0xE1] @ asc ''ch'', asc ''c'' @ [0xE1] @ asc ''ch''),
     (asc ''c '' @ [0xF3] @ asc '' th '' @ [0x1EC3], asc ''c'' @ [0xF3] @ asc '' th'' @ [0x1EC3]),
     (asc ''c ung c '' @ [0x1EA5] @ asc ''p'', asc ''cung c'' @ [0x1EA5] @ asc ''p''),
     (asc ''ph '' @ [0x1B0, 0x1A1] @ asc ''ng ph'' @ [0xE1] @ asc ''p'', asc ''ph'' @ [0x1B0, 0x1A1] @ asc ''ng ph'' @ [0xE1] @ asc ''p''),
     (asc ''c '' @ [0xF4] @ asc ''ng c '' @ [0x1EE5], asc ''c'' @ [0xF4] @ asc ''ng c'' @ [0x1EE5]),
     (asc ''ph '' @ [0xE2] @ asc ''n t'' @ [0xED] @ asc ''ch'', asc ''ph'' @ [0xE2] @ asc ''n t'' @ [0xED] @ asc ''ch''),
     (asc ''d '' @ [0x1EEF] @ asc '' li'' @ [0x1EC7] @ asc ''u'', asc ''d'' @ [0x1EEF] @ asc '' li'' @ [0x1EC7] @ asc ''u''),
     (asc ''b '' @ [0x1EB1] @ asc ''ng c '' @ [0xE1] @ asc ''ch'', asc ''b'' @ [0x1EB1] @ asc ''ng c'' @ [0xE1] @ asc ''ch''),
     (asc ''gi '' @ [0x1EA3] @ asc ''i quy '' @ [0x1EBF] @ asc ''t'', asc ''gi'' @ [0x1EA3] @ asc ''i quy'' @ [0x1EBF] @ asc ''t''),
     (asc ''y'' @ [0xEA] @ asc ''u c '' @ [0x1EA7] @ asc ''u'', asc ''y'' @ [0xEA] @ asc ''u c'' @ [0x1EA7] @ asc ''u''),
     (asc ''li'' @ [0xEA] @ asc ''n quan '' @ [0x111] @ asc '' '' @ [0x1EBF] @ asc ''n'', asc ''li'' @ [0xEA] @ asc ''n quan '' @ [0x111, 0x1EBF] @ asc ''n''),
     (asc ''ki nh doanh'', asc ''kinh doanh''),
     (asc ''nh '' @ [0x1EEF] @ asc ''ng'', asc ''nh'' @ [0x1EEF] @ asc ''ng''),
     (asc ''c'' @ [0x103] @ asc ''n b '' @ [0x1EA3] @ asc ''n'', asc ''c'' @ [0x103] @ asc ''n b'' @ [0x1EA3] @ asc ''n''),
     (asc ''g '' @ [0x1ED3] @ asc ''m'', asc ''g'' @ [0x1ED3] @ asc ''m''),
     ([0x111, 0x1B0] @ asc '' '' @ [0x1EE3] @ asc ''c'', [0x111, 0x1B0, 0x1EE3] @ asc ''c''),
     (asc ''c '' @ [0xE1] @ asc ''ch th '' @ [0x1EE9] @ asc ''c'', asc ''c'' @ [0xE1] @ asc ''ch th'' @ [0x1EE9] @ asc ''c''),
     ([0xE1] @ asc ''p d '' @ [0x1EE5] @ asc ''ng'', [0xE1] @ asc ''p d'' @ [0x1EE5] @ asc ''ng''),
     (asc ''th '' @ [0x1EF1] @ asc ''c t '' @ [0x1EBF], asc ''th'' @ [0x1EF1] @ asc ''c t'' @ [0x1EBF]),
     (asc ''m'' @ [0xF4] @ asc ''i tr'' @ [0x1B0] @ asc '' '' @ [0x1EDD] @ asc ''ng'', asc ''m'' @ [0xF4] @ asc ''i tr'' @ [0x1B0, 0x1EDD] @ asc ''ng''),
     (asc ''k '' @ [0x1EF9] @ asc '' thu '' @ [0x1EAD] @ asc ''t'', asc ''k'' @ [0x1EF9] @ asc '' thu'' @ [0x1EAD] @ asc ''t''),
     (asc ''cu '' @ [0x1ED1] @ asc ''i'', asc ''cu'' @ [0x1ED1] @ asc ''i''),
     (asc ''v '' @ [0x1EDB] @ asc ''i'', asc ''v'' @ [0x1EDB] @ asc ''i''),
     (asc ''ch '' @ [0x1EE9] @ asc ''ng ch '' @ [0x1EC9], asc ''ch'' @ [0x1EE9] @ asc ''ng ch'' @ [0x1EC9]),
     (asc ''c '' @ [0xE0] @ asc ''i '' @ [0x111] @ asc '' '' @ [0x1EB7] @ asc ''t'', asc ''c'' @ [0xE0] @ asc ''i '' @ [0x111, 0x1EB7] @ asc ''t''),
     (asc ''tri '' @ [0x1EC3] @ asc ''n khai'', asc ''tri'' @ [0x1EC3] @ asc ''n khai''),
     (asc ''c '' @ [0x1EA5] @ asc ''u h'' @ [0xEC] @ asc ''nh'', asc ''c'' @ [0x1EA5] @ asc ''u h'' @ [0xEC] @ asc ''nh''),
     (asc ''ph '' @ [0x1EE5] @ asc ''c v '' @ [0x1EE5], asc ''ph'' @ [0x1EE5] @ asc ''c v'' @ [0x1EE5]),
     (asc ''ph '' @ [0xE1] @ asc ''t tri '' @ [0x1EC3] @ asc ''n'', asc ''ph'' @ [0xE1] @ asc ''t tri'' @ [0x1EC3] @ asc ''n'')]"

definition encoding_patterns :: "(rx \<times> tpl list) list" where
  \<open>encoding_patterns =
     \<comment> \<open>([a-zA-Z\u00C0-\u1EF9])\s+([\u1ECD\u1EC7\u1EA5\u1EDF\u1EA3\u1EAF\u1EB1\u1EB3\u1EB5\u1EB7])\<close>
    [(cat [Grp 1 (Set [Rng 97 122, Rng 65 90, Rng 0xC0 0x1EF9]), Plus (Set [Space]), Grp 2 (Set [Ch 0x1ECD, Ch 0x1EC7, Ch 0x1EA5, Ch 0x1EDF, Ch 0x1EA3, Ch 0x1EAF, Ch 0x1EB1, Ch 0x1EB3, Ch 0x1EB5, Ch 0x1EB7])], [G 1, G 2]),
     \<comment> \<open>([a-zA-Z\u00C0-\u1EF9])\s+([\u1EE5\u0169\u00FA\u00F9\u0171\u00F9\u1EED])\<close>
     (cat [Grp 1 (Set [Rng 97 122, Rng 65 90, Rng 0xC0 0x1EF9]), Plus (Set [Space]), Grp 2 (Set [Ch 0x1EE5, Ch 0x169, Ch 0xFA, Ch 0xF9, Ch 0x171, Ch 0xF9, Ch 0x1EED])], [G 1, G 2]),
     \<comment> \<open>([a-zA-Z\u00C0-\u1EF9])\s+([\u1ECB\u0129\u00ED\u00EC\u1EC9])\<close>
     (cat [Grp 1 (Set [Rng 97 122, Rng 65 90, Rng 0xC0 0x1EF9]), Plus (Set [Space]), Grp 2 (Set [Ch 0x1ECB, Ch 0x129, Ch 0xED, Ch 0xEC, Ch 0x1EC9])], [G 1, G 2]),
     \<comment> \<open>([a-zA-Z\u00C0-\u1EF9])\s+([\u1ED7\u1ED1\u1ED3\u1ED5\u1ED9])\<close>
     (cat [Grp 1 (Set [Rng 97 122, Rng 65 90, Rng 0xC0 0x1EF9]), Plus (Set [Space]), Grp 2 (Set [Ch 0x1ED7, Ch 0x1ED1, Ch 0x1ED3, Ch 0x1ED5, Ch 0x1ED9])], [G 1, G 2]),
     \<comment> \<open>([a-zA-Z\u00C0-\u1EF9])\s+([\u1EF9\u00FD\u1EF3\u1EF7\u1EF5])\<close>
     (cat [Grp 1 (Set [Rng 97 122, Rng 65 90, Rng 0xC0 0x1EF9]), Plus (Set [Space]), Grp 2 (Set [Ch 0x1EF9, Ch 0xFD, Ch 0x1EF3, Ch 0x1EF7, Ch 0x1EF5])], [G 1, G 2])]\<close>

definition course_content_patterns :: "rx list" where
  \<open>course_content_patterns =
     \<comment> \<open>I\.\s*Gi\u1EDBi thi\u1EC7u.*?(?=Tr\u1EE5 s\u1EDF|Chi nh\u00E1nh|$)\<close>
    [cat [str (asc ''I.''), Star (Set [Space]), str (asc ''Gi'' @ [0x1EDB] @ asc ''i thi'' @ [0x1EC7] @ asc ''u''), LStar Dot, Look (alts [str (asc ''Tr'' @ [0x1EE5] @ asc '' s'' @ [0x1EDF]), str (asc ''Chi nh'' @ [0xE1] @ asc ''nh''), Eol])],
     \<comment> \<open>II\.\s*Th\u1EDDi l\u01B0\u1EE3ng.*?(?=Tr\u1EE5 s\u1EDF|Chi nh\u00E1nh|$)\<close>
     cat [str (asc ''II.''), Star (Set [Space]), str (asc ''Th'' @ [0x1EDD] @ asc ''i l'' @ [0x1B0, 0x1EE3] @ asc ''ng''), LStar Dot, Look (alts [str (asc ''Tr'' @ [0x1EE5] @ asc '' s'' @ [0x1EDF]), str (asc ''Chi nh'' @ [0xE1] @ asc ''nh''), Eol])],
     \<comment> \<open>III\.\s*M\u1EE5c ti\u00EAu.*?(?=Tr\u1EE5 s\u1EDF|Chi nh\u00E1nh|$)\<close>
     cat [str (asc ''III.''), Star (Set [Space]), str (asc ''M'' @ [0x1EE5] @ asc ''c ti'' @ [0xEA] @ asc ''u''), LStar Dot, Look (alts [str (asc ''Tr'' @ [0x1EE5] @ asc '' s'' @ [0x1EDF]), str (asc ''Chi nh'' @ [0xE1] @ asc ''nh''), Eol])],
     \<comment> \<open>IV\.\s*\u0110\u1ED1i t\u01B0\u1EE3ng.*?(?=Tr\u1EE5 s\u1EDF|Chi nh\u00E1nh|$)\<close>
     cat [str (asc ''IV.''), Star (Set [Space]), str ([0x110, 0x1ED1] @ asc ''i t'' @ [0x1B0, 0x1EE3] @ asc ''ng''), LStar Dot, Look (alts [str (asc ''Tr'' @ [0x1EE5] @ asc '' s'' @ [0x1EDF]), str (asc ''Chi nh'' @ [0xE1] @ asc ''nh''), Eol])],
     \<comment> \<open>V\.\s*Y\u00EAu c\u1EA7u.*?(?=Tr\u1EE5 s\u1EDF|Chi nh\u00E1nh|$)\<close>
     cat [str (asc ''V.''), Star (Set [Space]), str (asc ''Y'' @ [0xEA] @ asc ''u c'' @ [0x1EA7] @ asc ''u''), LStar Dot, Look (alts [str (asc ''Tr'' @ [0x1EE5] @ asc '' s'' @ [0x1EDF]), str (asc ''Chi nh'' @ [0xE1] @ asc ''nh''), Eol])],
     \<comment> \<open>VI\.\s*N\u1ED9i dung.*?(?=Tr\u1EE5 s\u1EDF|Chi nh\u00E1nh|$)\<close>
     cat [str (asc ''VI.''), Star (Set [Space]), str (asc ''N'' @ [0x1ED9] @ asc ''i dung''), LStar Dot, Look (alts [str (asc ''Tr'' @ [0x1EE5] @ asc '' s'' @ [0x1EDF]), str (asc ''Chi nh'' @ [0xE1] @ asc ''nh''), Eol])],
     \<comment> \<open>Kh\u00F3a h\u1ECDc.*?(?=Tr\u1EE5 s\u1EDF|Chi nh\u00E1nh|$)\<close>
     cat [str (asc ''Kh'' @ [0xF3] @ asc ''a h'' @ [0x1ECD] @ asc ''c''), LStar Dot, Look (alts [str (asc ''Tr'' @ [0x1EE5] @ asc '' s'' @ [0x1EDF]), str (asc ''Chi nh'' @ [0xE1] @ asc ''nh''), Eol])],
     \<comment> \<open>(?:Module|Ch\u01B0\u01A1ng)\s*\d+.*?(?=Tr\u1EE5 s\u1EDF|Chi nh\u00E1nh|$)\<close>
     cat [alts [str (asc ''Module''), str (asc ''Ch'' @ [0x1B0, 0x1A1] @ asc ''ng'')], Star (Set [Space]), Plus (Set [Digit]), LStar Dot, Look (alts [str (asc ''Tr'' @ [0x1EE5] @ asc '' s'' @ [0x1EDF]), str (asc ''Chi nh'' @ [0xE1] @ asc ''nh''), Eol])]]\<close>

definition company_blocks :: "rx list" where
  \<open>company_blocks =
     \<comment> \<open>Ho Chi Minh.*?City Head Office.*?www\.Robusta\.vn\<close>
    [cat [str (asc ''Ho Chi Minh''), LStar Dot, str (asc ''City Head Office''), LStar Dot, str (asc ''www.Robusta.vn'')],
     \<comment> \<open>Tr\u1EE5 s\u1EDF ch\u00EDnh.*?www\.Robusta\.vn\<close>
     cat [str (asc ''Tr'' @ [0x1EE5] @ asc '' s'' @ [0x1EDF] @ asc '' ch'' @ [0xED] @ asc ''nh''), LStar Dot, str (asc ''www.Robusta.vn'')],
     \<comment> \<open>Chi nh\u00E1nh.*?Learn@Robusta\.vn\<close>
     cat [str (asc ''Chi nh'' @ [0xE1] @ asc ''nh''), LStar Dot, str (asc ''Learn@Robusta.vn'')],
     \<comment> \<open>Hanoi\s+Office.*?www\.Robusta\.vn\<close>
     cat [str (asc ''Hanoi''), Plus (Set [Space]), str (asc ''Office''), LStar Dot, str (asc ''www.Robusta.vn'')]]\<close>

definition course_keywords :: "ustring list" where
  "course_keywords =
    [asc ''kh'' @ [0xF3] @ asc ''a h'' @ [0x1ECD] @ asc ''c'',
     asc ''course'',
     asc ''m'' @ [0x1EE5] @ asc ''c ti'' @ [0xEA] @ asc ''u'',
     asc ''objectives'',
     asc ''gi'' @ [0x1EDB] @ asc ''i thi'' @ [0x1EC7] @ asc ''u'',
     asc ''n'' @ [0x1ED9] @ asc ''i dung'',
     asc ''content'',
     asc ''h'' @ [0x1ECD] @ asc ''c vi'' @ [0xEA] @ asc ''n'',
     asc ''students'',
     asc ''y'' @ [0xEA] @ asc ''u c'' @ [0x1EA7] @ asc ''u'',
     asc ''VMware'',
     asc ''NSX'',
     asc ''BigData'',
     asc ''Cloud'',
     asc ''th'' @ [0x1EDD] @ asc ''i l'' @ [0x1B0, 0x1EE3] @ asc ''ng'',
     asc ''duration'']"

definition course_structure_keywords :: "rx list" where
  \<open>course_structure_keywords =
     \<comment> \<open>I\.\s*Gi\u1EDBi thi\u1EC7u\<close>
    [cat [str (asc ''I.''), Star (Set [Space]), str (asc ''Gi'' @ [0x1EDB] @ asc ''i thi'' @ [0x1EC7] @ asc ''u'')],
     \<comment> \<open>II\.\s*Th\u1EDDi l\u01B0\u1EE3ng\<close>
     cat [str (asc ''II.''), Star (Set [Space]), str (asc ''Th'' @ [0x1EDD] @ asc ''i l'' @ [0x1B0, 0x1EE3] @ asc ''ng'')],
     \<comment> \<open>III\.\s*M\u1EE5c ti\u00EAu\<close>
     cat [str (asc ''III.''), Star (Set [Space]), str (asc ''M'' @ [0x1EE5] @ asc ''c ti'' @ [0xEA] @ asc ''u'')],
     \<comment> \<open>IV\.\s*\u0110\u1ED1i t\u01B0\u1EE3ng\<close>
     cat [str (asc ''IV.''), Star (Set [Space]), str ([0x110, 0x1ED1] @ asc ''i t'' @ [0x1B0, 0x1EE3] @ asc ''ng'')],
     \<comment> \<open>V\.\s*Y\u00EAu c\u1EA7u\<close>
     cat [str (asc ''V.''), Star (Set [Space]), str (asc ''Y'' @ [0xEA] @ asc ''u c'' @ [0x1EA7] @ asc ''u'')],
     \<comment> \<open>VI\.\s*N\u1ED9i dung\<close>
     cat [str (asc ''VI.''), Star (Set [Space]), str (asc ''N'' @ [0x1ED9] @ asc ''i dung'')],
     \<comment> \<open>Kh\u00F3a h\u1ECDc\<close>
     str (asc ''Kh'' @ [0xF3] @ asc ''a h'' @ [0x1ECD] @ asc ''c''),
     \<comment> \<open>Course\<close>
     str (asc ''Course''),
     \<comment> \<open>Module\s*\d+\<close>
     cat [str (asc ''Module''), Star (Set [Space]), Plus (Set [Digit])],
     \<comment> \<open>Ch\u01B0\u01A1ng\s*\d+\<close>
     cat [str (asc ''Ch'' @ [0x1B0, 0x1A1] @ asc ''ng''), Star (Set [Space]), Plus (Set [Digit])],
     \<comment> \<open>VMware\<close>
     str (asc ''VMware''),
     \<comment> \<open>NSX\<close>
     str (asc ''NSX''),
     \<comment> \<open>BigData\<close>
     str (asc ''BigData''),
     \<comment> \<open>Cloud\<close>
     str (asc ''Cloud''),
     \<comment> \<open>OpenStack\<close>
     str (asc ''OpenStack'')]\<close>

definition isolated_patterns :: "rx list" where
  \<open>isolated_patterns =
     \<comment> \<open>^.*?(?:Head Office|Chi nh\u00E1nh|Tr\u1EE5 s\u1EDF).*?$\<close>
    [cat [Bol, LStar Dot, alts [str (asc ''Head Office''), str (asc ''Chi nh'' @ [0xE1] @ asc ''nh''), str (asc ''Tr'' @ [0x1EE5] @ asc '' s'' @ [0x1EDF])], LStar Dot, Eol],
     \<comment> \<open>^.*?(?:\+84|\(\+84\)).*?$\<close>
     cat [Bol, LStar Dot, alts [str (asc ''+84''), str (asc ''(+84)'')], LStar Dot, Eol],
     \<comment> \<open>^.*?(?:Tel:|Phone:|Hotline:).*?$\<close>
     cat [Bol, LStar Dot, alts [str (asc ''Tel:''), str (asc ''Phone:''), str (asc ''Hotline:'')], LStar Dot, Eol],
     \<comment> \<open>^.*?(?:Website:|Email:).*?$\<close>
     cat [Bol, LStar Dot, alts [str (asc ''Website:''), str (asc ''Email:'')], LStar Dot, Eol],
     \<comment> \<open>^.*?(?:www\.Robusta|Learn@Robusta).*?$\<close>
     cat [Bol, LStar Dot, alts [str (asc ''www.Robusta''), str (asc ''Learn@Robusta'')], LStar Dot, Eol],
     \<comment> \<open>^.*?(?:97-99-101|Lane 167|T\u00E2y S\u01A1n).*?$\<close>
     cat [Bol, LStar Dot, alts [str (asc ''97-99-101''), str (asc ''Lane 167''), str (asc ''T'' @ [0xE2] @ asc ''y S'' @ [0x1A1] @ asc ''n'')], LStar Dot, Eol],
     \<comment> \<open>^.*?(?:Dist\.|Qu\u1EADn|HCM City|H\u00E0 N\u1ED9i).*?$\<close>
     cat [Bol, LStar Dot, alts [str (asc ''Dist.''), str (asc ''Qu'' @ [0x1EAD] @ asc ''n''), str (asc ''HCM City''), str (asc ''H'' @ [0xE0] @ asc '' N'' @ [0x1ED9] @ asc ''i'')], LStar Dot, Eol]]\<close>

text \<open>
  The dictionary \<open>fixes\<close> (here \<open>fixes_dict\<close>) is listed in its iteration order; the source writes one key
  twice, with the same value, which is one entry of the dictionary.
\<close>

definition fix_vietnamese_encoding :: "ustring \<Rightarrow> ustring" where
  "fix_vietnamese_encoding text =
     (if text = [] then []
      else
        let fixed_text = foldl (\<lambda>t (wrong, correct). replace wrong correct t) text fixes_dict
        in foldl (\<lambda>t (pattern, replacement). re_sub pattern replacement t NOFLAGS)
             fixed_text encoding_patterns)"

definition replace_if_not_course :: "rmatch \<Rightarrow> ustring" where
  \<comment> \<open>the replacement function of the third pass: a match is kept when it contains a
      course keyword and removed otherwise\<close>
  "replace_if_not_course match =
     (let matched_text = m_group match
      in if list_ex (\<lambda>keyword. contains (lower keyword) (lower matched_text)) course_keywords
         then matched_text else [])"

fun filter_lines :: "ustring list \<Rightarrow> ustring list" where
  \<comment> \<open>the loop of the fourth pass over the lines\<close>
  "filter_lines [] = []"
| "filter_lines (l # lines) =
     (let line = strip l
      in if line = [] then filter_lines lines
         else if list_ex (\<lambda>pattern. re_search pattern line IGNORECASE \<noteq> None) course_structure_keywords
           then line # filter_lines lines
         else if list_ex (\<lambda>pattern. re_match pattern line IGNORECASE \<noteq> None) isolated_patterns
           then filter_lines lines
         else line # filter_lines lines)"

definition remove_company_noise :: "ustring \<Rightarrow> ustring" where
  "remove_company_noise text =
     (let preserved_content =
            concat (map (\<lambda>pattern. re_findall pattern text DOTALL_IGNORECASE) course_content_patterns);
          cleaned = foldl (\<lambda>c pattern. re_sub pattern [] c DOTALL_IGNORECASE) text company_blocks;
          cleaned = foldl (\<lambda>c pattern. re_sub_fn pattern replace_if_not_course c IGNORECASE_MULTILINE)
                      cleaned company_noise_patterns
      in join [10] (filter_lines (split_on 10 cleaned)))"

definition normalize_whitespace :: "ustring \<Rightarrow> ustring" where
  "normalize_whitespace text =
     (let text = re_sub (Plus (Set [Space])) [T (asc '' '')] text NOFLAGS;
          text = re_sub (cat [Lit 10, Star (Set [Space]), Lit 10, Star (Set [Space]), Plus (Lit 10)]) [T ([10, 10])] text NOFLAGS;
          text = re_sub (cat [Lit 10, Plus (Set [Space])]) [T ([10])] text NOFLAGS
      in text)"

definition standardize_formatting :: "ustring \<Rightarrow> ustring" where
  "standardize_formatting text =
     (let text = re_sub (cat [Lit 0x2022, Star (Set [Space])]) [T ([0x2022] @ asc '' '')] text NOFLAGS;
          text = re_sub (cat [Grp 1 (Plus (Set [Digit])), Lit 46, Star (Set [Space])]) [G 1, T (asc ''. '')] text NOFLAGS
      in text)"

fun complete_lines :: "ustring list \<Rightarrow> ustring list" where
  \<comment> \<open>the loop of \<open>remove_incomplete_lines\<close> over the lines\<close>
  "complete_lines [] = []"
| "complete_lines (l # lines) =
     (let line = strip l
      in if line = [] then complete_lines lines
         else if length line < 10 then complete_lines lines
         else if length line > 20 \<and> re_search (cat [Set [Ch 46, Ch 33, Ch 63, Ch 41, Ch 58], Eol]) line NOFLAGS = None
                 \<and> ends_with (asc ''...'') line
           then complete_lines lines
         else line # complete_lines lines)"

definition remove_incomplete_lines :: "ustring \<Rightarrow> ustring" where
  "remove_incomplete_lines text = join [10] (complete_lines (split_on 10 text))"

definition clean_text :: "ustring \<Rightarrow> ustring" where
  \<comment> \<open>the pattern of the third step is \<open>[^\w\s\u00C0-\u1EF9\n\.\,\!\?\-\\u2022\:\(\)]\<close>\<close>
  "clean_text text =
     (if text = [] then []
      else
        let text = fix_vietnamese_encoding text;
            text = remove_company_noise text;
            text = re_sub (NSet [Word, Space, Rng 0xC0 0x1EF9, Ch 10, Ch 46, Ch 44, Ch 33, Ch 63, Ch 45, Ch 0x2022, Ch 58, Ch 40, Ch 41]) [T (asc '' '')] text NOFLAGS;
            text = normalize_whitespace text;
            text = standardize_formatting text;
            text = remove_incomplete_lines text
        in strip text)"

section \<open>The course extractor (course_extractor.py, class CourseInfoExtractor)\<close>

datatype error = KeyError

record section_config =
  title :: ustring
  patterns :: "rx list"
  key_words :: "ustring list"
  stop_patterns :: "rx list"

definition overview_patterns :: "rx list" where
  \<open>overview_patterns =
     \<comment> \<open>i+\.\s*t\u1ED5ng quan\<close>
    [cat [Plus (Lit 105), Lit 46, Star (Set [Space]), str (asc ''t'' @ [0x1ED5] @ asc ''ng quan'')],
     \<comment> \<open>i+\.\s*gi\u1EDBi thi\u1EC7u\<close>
     cat [Plus (Lit 105), Lit 46, Star (Set [Space]), str (asc ''gi'' @ [0x1EDB] @ asc ''i thi'' @ [0x1EC7] @ asc ''u'')],
     \<comment> \<open>t\u1ED5ng quan\s*$\<close>
     cat [str (asc ''t'' @ [0x1ED5] @ asc ''ng quan''), Star (Set [Space]), Eol],
     \<comment> \<open>gi\u1EDBi thi\u1EC7u v\u1EC1 kh\u00F3a h\u1ECDc\<close>
     str (asc ''gi'' @ [0x1EDB] @ asc ''i thi'' @ [0x1EC7] @ asc ''u v'' @ [0x1EC1] @ asc '' kh'' @ [0xF3] @ asc ''a h'' @ [0x1ECD] @ asc ''c'')]\<close>

definition overview_keywords :: "ustring list" where
  "overview_keywords =
    [asc ''t'' @ [0x1ED5] @ asc ''ng quan'',
     asc ''gi'' @ [0x1EDB] @ asc ''i thi'' @ [0x1EC7] @ asc ''u kh'' @ [0xF3] @ asc ''a h'' @ [0x1ECD] @ asc ''c'',
     asc ''m'' @ [0xF4] @ asc '' t'' @ [0x1EA3] @ asc '' kh'' @ [0xF3] @ asc ''a h'' @ [0x1ECD] @ asc ''c'']"

definition overview_stop_patterns :: "rx list" where
  \<open>overview_stop_patterns =
     \<comment> \<open>ii+\.\s*th\u1EDDi l\u01B0\u1EE3ng\<close>
    [cat [Lit 105, Plus (Lit 105), Lit 46, Star (Set [Space]), str (asc ''th'' @ [0x1EDD] @ asc ''i l'' @ [0x1B0, 0x1EE3] @ asc ''ng'')],
     \<comment> \<open>th\u1EDDi l\u01B0\u1EE3ng\s*\d+\<close>
     cat [str (asc ''th'' @ [0x1EDD] @ asc ''i l'' @ [0x1B0, 0x1EE3] @ asc ''ng''), Star (Set [Space]), Plus (Set [Digit])]]\<close>

definition duration_patterns :: "rx list" where
  \<open>duration_patterns =
     \<comment> \<open>ii+\.\s*th\u1EDDi l\u01B0\u1EE3ng\<close>
    [cat [Lit 105, Plus (Lit 105), Lit 46, Star (Set [Space]), str (asc ''th'' @ [0x1EDD] @ asc ''i l'' @ [0x1B0, 0x1EE3] @ asc ''ng'')],
     \<comment> \<open>th\u1EDDi l\u01B0\u1EE3ng\s*\d+\<close>
     cat [str (asc ''th'' @ [0x1EDD] @ asc ''i l'' @ [0x1B0, 0x1EE3] @ asc ''ng''), Star (Set [Space]), Plus (Set [Digit])],
     \<comment> \<open>th\u1EDDi l\u01B0\u1EE3ng.*gi\u1EDD\<close>
     cat [str (asc ''th'' @ [0x1EDD] @ asc ''i l'' @ [0x1B0, 0x1EE3] @ asc ''ng''), Star Dot, str (asc ''gi'' @ [0x1EDD])]]\<close>

definition duration_keywords :: "ustring list" where
  "duration_keywords =
    [asc ''th'' @ [0x1EDD] @ asc ''i l'' @ [0x1B0, 0x1EE3] @ asc ''ng'',
     asc ''h'' @ [0xEC] @ asc ''nh th'' @ [0x1EE9] @ asc ''c '' @ [0x111, 0xE0] @ asc ''o t'' @ [0x1EA1] @ asc ''o'',
     asc ''th'' @ [0x1EDD] @ asc ''i gian h'' @ [0x1ECD] @ asc ''c'']"

definition duration_stop_patterns :: "rx list" where
  \<open>duration_stop_patterns =
     \<comment> \<open>iii+\.\s*m\u1EE5c ti\u00EAu\<close>
    [cat [str (asc ''ii''), Plus (Lit 105), Lit 46, Star (Set [Space]), str (asc ''m'' @ [0x1EE5] @ asc ''c ti'' @ [0xEA] @ asc ''u'')],
     \<comment> \<open>m\u1EE5c ti\u00EAu kh\u00F3a h\u1ECDc\<close>
     str (asc ''m'' @ [0x1EE5] @ asc ''c ti'' @ [0xEA] @ asc ''u kh'' @ [0xF3] @ asc ''a h'' @ [0x1ECD] @ asc ''c'')]\<close>

definition objectives_patterns :: "rx list" where
  \<open>objectives_patterns =
     \<comment> \<open>iii+\.\s*m\u1EE5c ti\u00EAu kh\u00F3a h\u1ECDc\<close>
    [cat [str (asc ''ii''), Plus (Lit 105), Lit 46, Star (Set [Space]), str (asc ''m'' @ [0x1EE5] @ asc ''c ti'' @ [0xEA] @ asc ''u kh'' @ [0xF3] @ asc ''a h'' @ [0x1ECD] @ asc ''c'')],
     \<comment> \<open>m\u1EE5c ti\u00EAu kh\u00F3a h\u1ECDc\<close>
     str (asc ''m'' @ [0x1EE5] @ asc ''c ti'' @ [0xEA] @ asc ''u kh'' @ [0xF3] @ asc ''a h'' @ [0x1ECD] @ asc ''c''),
     \<comment> \<open>m\u1EE5c ti\u00EAu\s*$\<close>
     cat [str (asc ''m'' @ [0x1EE5] @ asc ''c ti'' @ [0xEA] @ asc ''u''), Star (Set [Space]), Eol]]\<close>

definition objectives_keywords :: "ustring list" where
  "objectives_keywords =
    [asc ''m'' @ [0x1EE5] @ asc ''c ti'' @ [0xEA] @ asc ''u kh'' @ [0xF3] @ asc ''a h'' @ [0x1ECD] @ asc ''c'',
     asc ''m'' @ [0x1EE5] @ asc ''c ti'' @ [0xEA] @ asc ''u'',
     asc ''sau kh'' @ [0xF3] @ asc ''a h'' @ [0x1ECD] @ asc ''c'']"

definition objectives_stop_patterns :: "rx list" where
  \<open>objectives_stop_patterns =
     \<comment> \<open>iv+\.\s*\u0111\u1ED1i t\u01B0\u1EE3ng\<close>
    [cat [Lit 105, Plus (Lit 118), Lit 46, Star (Set [Space]), str ([0x111, 0x1ED1] @ asc ''i t'' @ [0x1B0, 0x1EE3] @ asc ''ng'')],
     \<comment> \<open>\u0111\u1ED1i t\u01B0\u1EE3ng tham gia\<close>
     str ([0x111, 0x1ED1] @ asc ''i t'' @ [0x1B0, 0x1EE3] @ asc ''ng tham gia'')]\<close>

definition audience_patterns :: "rx list" where
  \<open>audience_patterns =
     \<comment> \<open>iv+\.\s*\u0111\u1ED1i t\u01B0\u1EE3ng tham gia\<close>
    [cat [Lit 105, Plus (Lit 118), Lit 46, Star (Set [Space]), str ([0x111, 0x1ED1] @ asc ''i t'' @ [0x1B0, 0x1EE3] @ asc ''ng tham gia'')],
     \<comment> \<open>\u0111\u1ED1i t\u01B0\u1EE3ng tham gia\<close>
     str ([0x111, 0x1ED1] @ asc ''i t'' @ [0x1B0, 0x1EE3] @ asc ''ng tham gia''),
     \<comment> \<open>\u0111\u1ED1i t\u01B0\u1EE3ng\s*$\<close>
     cat [str ([0x111, 0x1ED1] @ asc ''i t'' @ [0x1B0, 0x1EE3] @ asc ''ng''), Star (Set [Space]), Eol]]\<close>

definition audience_keywords :: "ustring list" where
  "audience_keywords =
    [[0x111, 0x1ED1] @ asc ''i t'' @ [0x1B0, 0x1EE3] @ asc ''ng tham gia'',
     [0x111, 0x1ED1] @ asc ''i t'' @ [0x1B0, 0x1EE3] @ asc ''ng'',
     asc ''h'' @ [0x1ECD] @ asc ''c vi'' @ [0xEA] @ asc ''n'']"

definition audience_stop_patterns :: "rx list" where
  \<open>audience_stop_patterns =
     \<comment> \<open>v+\.\s*n\u1ED9i dung\<close>
    [cat [Plus (Lit 118), Lit 46, Star (Set [Space]), str (asc ''n'' @ [0x1ED9] @ asc ''i dung'')],
     \<comment> \<open>n\u1ED9i dung kh\u00F3a h\u1ECDc\<close>
     str (asc ''n'' @ [0x1ED9] @ asc ''i dung kh'' @ [0xF3] @ asc ''a h'' @ [0x1ECD] @ asc ''c''),
     \<comment> \<open>ch\u01B0\u01A1ng tr\u00ECnh\<close>
     str (asc ''ch'' @ [0x1B0, 0x1A1] @ asc ''ng tr'' @ [0xEC] @ asc ''nh'')]\<close>

definition content_patterns :: "rx list" where
  \<open>content_patterns =
     \<comment> \<open>v+\.\s*n\u1ED9i dung kh\u00F3a h\u1ECDc\<close>
    [cat [Plus (Lit 118), Lit 46, Star (Set [Space]), str (asc ''n'' @ [0x1ED9] @ asc ''i dung kh'' @ [0xF3] @ asc ''a h'' @ [0x1ECD] @ asc ''c'')],
     \<comment> \<open>n\u1ED9i dung kh\u00F3a h\u1ECDc\<close>
     str (asc ''n'' @ [0x1ED9] @ asc ''i dung kh'' @ [0xF3] @ asc ''a h'' @ [0x1ECD] @ asc ''c''),
     \<comment> \<open>ch\u01B0\u01A1ng tr\u00ECnh h\u1ECDc\<close>
     str (asc ''ch'' @ [0x1B0, 0x1A1] @ asc ''ng tr'' @ [0xEC] @ asc ''nh h'' @ [0x1ECD] @ asc ''c''),
     \<comment> \<open>module\s*\d+\<close>
     cat [str (asc ''module''), Star (Set [Space]), Plus (Set [Digit])]]\<close>

definition content_keywords :: "ustring list" where
  "content_keywords =
    [asc ''n'' @ [0x1ED9] @ asc ''i dung kh'' @ [0xF3] @ asc ''a h'' @ [0x1ECD] @ asc ''c'',
     asc ''ch'' @ [0x1B0, 0x1A1] @ asc ''ng tr'' @ [0xEC] @ asc ''nh'',
     asc ''module'',
     asc ''n'' @ [0x1ED9] @ asc ''i dung '' @ [0x111, 0xE0] @ asc ''o t'' @ [0x1EA1] @ asc ''o'']"

definition content_stop_patterns :: "rx list" where
  "content_stop_patterns = []"

definition section_configs :: "(string \<times> section_config) list" where
  "section_configs =
    [(''overview'', \<lparr>title = asc ''Gi'' @ [0x1EDB] @ asc ''i thi'' @ [0x1EC7] @ asc ''u/T'' @ [0x1ED5] @ asc ''ng quan kh'' @ [0xF3] @ asc ''a h'' @ [0x1ECD] @ asc ''c'',
        patterns = overview_patterns, key_words = overview_keywords, stop_patterns = overview_stop_patterns\<rparr>),
     (''duration'', \<lparr>title = asc ''Th'' @ [0x1EDD] @ asc ''i l'' @ [0x1B0, 0x1EE3] @ asc ''ng & H'' @ [0xEC] @ asc ''nh th'' @ [0x1EE9] @ asc ''c '' @ [0x111, 0xE0] @ asc ''o t'' @ [0x1EA1] @ asc ''o'',
        patterns = duration_patterns, key_words = duration_keywords, stop_patterns = duration_stop_patterns\<rparr>),
     (''objectives'', \<lparr>title = asc ''M'' @ [0x1EE5] @ asc ''c ti'' @ [0xEA] @ asc ''u kh'' @ [0xF3] @ asc ''a h'' @ [0x1ECD] @ asc ''c'',
        patterns = objectives_patterns, key_words = objectives_keywords, stop_patterns = objectives_stop_patterns\<rparr>),
     (''audience'', \<lparr>title = [0x110, 0x1ED1] @ asc ''i t'' @ [0x1B0, 0x1EE3] @ asc ''ng tham gia'',
        patterns = audience_patterns, key_words = audience_keywords, stop_patterns = audience_stop_patterns\<rparr>),
     (''content'', \<lparr>title = asc ''N'' @ [0x1ED9] @ asc ''i dung kh'' @ [0xF3] @ asc ''a h'' @ [0x1ECD] @ asc ''c'',
        patterns = content_patterns, key_words = content_keywords, stop_patterns = content_stop_patterns\<rparr>)]"

definition generic_stops :: "rx list" where
  \<open>generic_stops =
     \<comment> \<open>\n\s*[ivx]+\.\s*[a-zA-Z\u00C0-\u1EF9]\<close>
    [cat [Lit 10, Star (Set [Space]), Plus (Set [Ch 105, Ch 118, Ch 120]), Lit 46, Star (Set [Space]), Set [Rng 97 122, Rng 65 90, Rng 0xC0 0x1EF9]],
     \<comment> \<open>\n\s*\d+\.\s*[A-Z\u00C0\u00C1\u1EA2\u00C3\u1EA0]\<close>
     cat [Lit 10, Star (Set [Space]), Plus (Set [Digit]), Lit 46, Star (Set [Space]), Set [Rng 65 90, Ch 0xC0, Ch 0xC1, Ch 0x1EA2, Ch 0xC3, Ch 0x1EA0]]]\<close>

definition section1_intro_patterns :: "rx list" where
  \<open>section1_intro_patterns =
     \<comment> \<open>I\.\s*(?:Gi\u1EDBi thi\u1EC7u|T\u1ED5ng quan).*?(?=II\.|III\.|Th\u1EDDi l\u01B0\u1EE3ng|$)\<close>
    [cat [str (asc ''I.''), Star (Set [Space]), alts [str (asc ''Gi'' @ [0x1EDB] @ asc ''i thi'' @ [0x1EC7] @ asc ''u''), str (asc ''T'' @ [0x1ED5] @ asc ''ng quan'')], LStar Dot, Look (alts [str (asc ''II.''), str (asc ''III.''), str (asc ''Th'' @ [0x1EDD] @ asc ''i l'' @ [0x1B0, 0x1EE3] @ asc ''ng''), Eol])],
     \<comment> \<open>(?:Gi\u1EDBi thi\u1EC7u|T\u1ED5ng quan)(?:\s+v\u1EC1)?\s+(?:kh\u00F3a h\u1ECDc|kho\u00E1 h\u1ECDc).*?(?=II\.|Th\u1EDDi l\u01B0\u1EE3ng|M\u1EE5c ti\u00EAu|$)\<close>
     cat [alts [str (asc ''Gi'' @ [0x1EDB] @ asc ''i thi'' @ [0x1EC7] @ asc ''u''), str (asc ''T'' @ [0x1ED5] @ asc ''ng quan'')], Opt (cat [Plus (Set [Space]), str (asc ''v'' @ [0x1EC1])]), Plus (Set [Space]), alts [str (asc ''kh'' @ [0xF3] @ asc ''a h'' @ [0x1ECD] @ asc ''c''), str (asc ''kho'' @ [0xE1] @ asc '' h'' @ [0x1ECD] @ asc ''c'')], LStar Dot, Look (alts [str (asc ''II.''), str (asc ''Th'' @ [0x1EDD] @ asc ''i l'' @ [0x1B0, 0x1EE3] @ asc ''ng''), str (asc ''M'' @ [0x1EE5] @ asc ''c ti'' @ [0xEA] @ asc ''u''), Eol])],
     \<comment> \<open>OpenStack l\u00E0.*?(?=II\.|Th\u1EDDi l\u01B0\u1EE3ng|$)\<close>
     cat [str (asc ''OpenStack l'' @ [0xE0]), LStar Dot, Look (alts [str (asc ''II.''), str (asc ''Th'' @ [0x1EDD] @ asc ''i l'' @ [0x1B0, 0x1EE3] @ asc ''ng''), Eol])],
     \<comment> \<open>Kh\u00F3a h\u1ECDc.*?cung c\u1EA5p.*?(?=II\.|Th\u1EDDi l\u01B0\u1EE3ng|M\u1EE5c ti\u00EAu|$)\<close>
     cat [str (asc ''Kh'' @ [0xF3] @ asc ''a h'' @ [0x1ECD] @ asc ''c''), LStar Dot, str (asc ''cung c'' @ [0x1EA5] @ asc ''p''), LStar Dot, Look (alts [str (asc ''II.''), str (asc ''Th'' @ [0x1EDD] @ asc ''i l'' @ [0x1B0, 0x1EE3] @ asc ''ng''), str (asc ''M'' @ [0x1EE5] @ asc ''c ti'' @ [0xEA] @ asc ''u''), Eol])],
     \<comment> \<open>Trong b\u1ED1i c\u1EA3nh.*?(?=II\.|Th\u1EDDi l\u01B0\u1EE3ng|M\u1EE5c ti\u00EAu|$)\<close>
     cat [str (asc ''Trong b'' @ [0x1ED1] @ asc ''i c'' @ [0x1EA3] @ asc ''nh''), LStar Dot, Look (alts [str (asc ''II.''), str (asc ''Th'' @ [0x1EDD] @ asc ''i l'' @ [0x1B0, 0x1EE3] @ asc ''ng''), str (asc ''M'' @ [0x1EE5] @ asc ''c ti'' @ [0xEA] @ asc ''u''), Eol])]]\<close>

definition section1_duration_patterns :: "rx list" where
  \<open>section1_duration_patterns =
     \<comment> \<open>II\.\s*Th\u1EDDi l\u01B0\u1EE3ng.*?(?=III\.|IV\.|H\u00ECnh th\u1EE9c|M\u1EE5c ti\u00EAu|$)\<close>
    [cat [str (asc ''II.''), Star (Set [Space]), str (asc ''Th'' @ [0x1EDD] @ asc ''i l'' @ [0x1B0, 0x1EE3] @ asc ''ng''), LStar Dot, Look (alts [str (asc ''III.''), str (asc ''IV.''), str (asc ''H'' @ [0xEC] @ asc ''nh th'' @ [0x1EE9] @ asc ''c''), str (asc ''M'' @ [0x1EE5] @ asc ''c ti'' @ [0xEA] @ asc ''u''), Eol])],
     \<comment> \<open>Th\u1EDDi l\u01B0\u1EE3ng(?:\s+kh\u00F3a h\u1ECDc)?:.*?(?:gi\u1EDD|ng\u00E0y|tu\u1EA7n).*?(?=III\.|IV\.|H\u00ECnh th\u1EE9c|M\u1EE5c ti\u00EAu|\u0110\u1ED1i t\u01B0\u1EE3ng|$)\<close>
     cat [str (asc ''Th'' @ [0x1EDD] @ asc ''i l'' @ [0x1B0, 0x1EE3] @ asc ''ng''), Opt (cat [Plus (Set [Space]), str (asc ''kh'' @ [0xF3] @ asc ''a h'' @ [0x1ECD] @ asc ''c'')]), Lit 58, LStar Dot, alts [str (asc ''gi'' @ [0x1EDD]), str (asc ''ng'' @ [0xE0] @ asc ''y''), str (asc ''tu'' @ [0x1EA7] @ asc ''n'')], LStar Dot, Look (alts [str (asc ''III.''), str (asc ''IV.''), str (asc ''H'' @ [0xEC] @ asc ''nh th'' @ [0x1EE9] @ asc ''c''), str (asc ''M'' @ [0x1EE5] @ asc ''c ti'' @ [0xEA] @ asc ''u''), str ([0x110, 0x1ED1] @ asc ''i t'' @ [0x1B0, 0x1EE3] @ asc ''ng''), Eol])]]\<close>

definition section1_meaningful_patterns :: "rx list" where
  \<open>section1_meaningful_patterns =
     \<comment> \<open>(?:kh\u00F3a h\u1ECDc|kho\u00E1 h\u1ECDc).*?(?:cung c\u1EA5p|gi\u00FAp|trang b\u1ECB).*?(?=M\u1EE5c ti\u00EAu|\u0110\u1ED1i t\u01B0\u1EE3ng|\d+\.|$)\<close>
    [cat [alts [str (asc ''kh'' @ [0xF3] @ asc ''a h'' @ [0x1ECD] @ asc ''c''), str (asc ''kho'' @ [0xE1] @ asc '' h'' @ [0x1ECD] @ asc ''c'')], LStar Dot, alts [str (asc ''cung c'' @ [0x1EA5] @ asc ''p''), str (asc ''gi'' @ [0xFA] @ asc ''p''), str (asc ''trang b'' @ [0x1ECB])], LStar Dot, Look (alts [str (asc ''M'' @ [0x1EE5] @ asc ''c ti'' @ [0xEA] @ asc ''u''), str ([0x110, 0x1ED1] @ asc ''i t'' @ [0x1B0, 0x1EE3] @ asc ''ng''), cat [Plus (Set [Digit]), Lit 46], Eol])],
     \<comment> \<open>[A-Z][a-z]+ l\u00E0.*?(?=M\u1EE5c ti\u00EAu|\u0110\u1ED1i t\u01B0\u1EE3ng|\d+\.|$)\<close>
     cat [Set [Rng 65 90], Plus (Set [Rng 97 122]), str (asc '' l'' @ [0xE0]), LStar Dot, Look (alts [str (asc ''M'' @ [0x1EE5] @ asc ''c ti'' @ [0xEA] @ asc ''u''), str ([0x110, 0x1ED1] @ asc ''i t'' @ [0x1B0, 0x1EE3] @ asc ''ng''), cat [Plus (Set [Digit]), Lit 46], Eol])],
     \<comment> \<open>Trong b\u1ED1i c\u1EA3nh.*?(?=M\u1EE5c ti\u00EAu|\u0110\u1ED1i t\u01B0\u1EE3ng|\d+\.|$)\<close>
     cat [str (asc ''Trong b'' @ [0x1ED1] @ asc ''i c'' @ [0x1EA3] @ asc ''nh''), LStar Dot, Look (alts [str (asc ''M'' @ [0x1EE5] @ asc ''c ti'' @ [0xEA] @ asc ''u''), str ([0x110, 0x1ED1] @ asc ''i t'' @ [0x1B0, 0x1EE3] @ asc ''ng''), cat [Plus (Set [Digit]), Lit 46], Eol])]]\<close>

definition section2_objectives_patterns :: "rx list" where
  \<open>section2_objectives_patterns =
     \<comment> \<open>IV\.\s*M\u1EE5c ti\u00EAu.*?(?=V\.|VI\.|\u0110\u1ED1i t\u01B0\u1EE3ng|$)\<close>
    [cat [str (asc ''IV.''), Star (Set [Space]), str (asc ''M'' @ [0x1EE5] @ asc ''c ti'' @ [0xEA] @ asc ''u''), LStar Dot, Look (alts [str (asc ''V.''), str (asc ''VI.''), str ([0x110, 0x1ED1] @ asc ''i t'' @ [0x1B0, 0x1EE3] @ asc ''ng''), Eol])],
     \<comment> \<open>M\u1EE5c ti\u00EAu kh\u00F3a h\u1ECDc.*?(?=V\.|\u0110\u1ED1i t\u01B0\u1EE3ng|\u0110i\u1EC1u ki\u1EC7n|$)\<close>
     cat [str (asc ''M'' @ [0x1EE5] @ asc ''c ti'' @ [0xEA] @ asc ''u kh'' @ [0xF3] @ asc ''a h'' @ [0x1ECD] @ asc ''c''), LStar Dot, Look (alts [str (asc ''V.''), str ([0x110, 0x1ED1] @ asc ''i t'' @ [0x1B0, 0x1EE3] @ asc ''ng''), str ([0x110] @ asc ''i'' @ [0x1EC1] @ asc ''u ki'' @ [0x1EC7] @ asc ''n''), Eol])],
     \<comment> \<open>K\u1EBFt th\u00FAc kh\u00F3a h\u1ECDc.*?(?=V\.|\u0110\u1ED1i t\u01B0\u1EE3ng|$)\<close>
     cat [str (asc ''K'' @ [0x1EBF] @ asc ''t th'' @ [0xFA] @ asc ''c kh'' @ [0xF3] @ asc ''a h'' @ [0x1ECD] @ asc ''c''), LStar Dot, Look (alts [str (asc ''V.''), str ([0x110, 0x1ED1] @ asc ''i t'' @ [0x1B0, 0x1EE3] @ asc ''ng''), Eol])],
     \<comment> \<open>.*?h\u1ECDc vi\u00EAn.*?(?:n\u1EAFm|hi\u1EC3u|c\u00F3 th\u1EC3|s\u1EBD).*?(?=\u0110\u1ED1i t\u01B0\u1EE3ng|\u0110i\u1EC1u ki\u1EC7n|N\u1ED9i dung|$)\<close>
     cat [LStar Dot, str (asc ''h'' @ [0x1ECD] @ asc ''c vi'' @ [0xEA] @ asc ''n''), LStar Dot, alts [str (asc ''n'' @ [0x1EAF] @ asc ''m''), str (asc ''hi'' @ [0x1EC3] @ asc ''u''), str (asc ''c'' @ [0xF3] @ asc '' th'' @ [0x1EC3]), str (asc ''s'' @ [0x1EBD])], LStar Dot, Look (alts [str ([0x110, 0x1ED1] @ asc ''i t'' @ [0x1B0, 0x1EE3] @ asc ''ng''), str ([0x110] @ asc ''i'' @ [0x1EC1] @ asc ''u ki'' @ [0x1EC7] @ asc ''n''), str (asc ''N'' @ [0x1ED9] @ asc ''i dung''), Eol])]]\<close>

definition section2_audience_patterns :: "rx list" where
  \<open>section2_audience_patterns =
     \<comment> \<open>III\.\s*\u0110\u1ED1i t\u01B0\u1EE3ng.*?(?=IV\.|V\.|Y\u00EAu c\u1EA7u|\u0110i\u1EC1u ki\u1EC7n|N\u1ED9i dung|$)\<close>
    [cat [str (asc ''III.''), Star (Set [Space]), str ([0x110, 0x1ED1] @ asc ''i t'' @ [0x1B0, 0x1EE3] @ asc ''ng''), LStar Dot, Look (alts [str (asc ''IV.''), str (asc ''V.''), str (asc ''Y'' @ [0xEA] @ asc ''u c'' @ [0x1EA7] @ asc ''u''), str ([0x110] @ asc ''i'' @ [0x1EC1] @ asc ''u ki'' @ [0x1EC7] @ asc ''n''), str (asc ''N'' @ [0x1ED9] @ asc ''i dung''), Eol])],
     \<comment> \<open>V\.\s*\u0110\u1ED1i t\u01B0\u1EE3ng.*?(?=VI\.|VII\.|\u0110i\u1EC1u ki\u1EC7n|N\u1ED9i dung|$)\<close>
     cat [str (asc ''V.''), Star (Set [Space]), str ([0x110, 0x1ED1] @ asc ''i t'' @ [0x1B0, 0x1EE3] @ asc ''ng''), LStar Dot, Look (alts [str (asc ''VI.''), str (asc ''VII.''), str ([0x110] @ asc ''i'' @ [0x1EC1] @ asc ''u ki'' @ [0x1EC7] @ asc ''n''), str (asc ''N'' @ [0x1ED9] @ asc ''i dung''), Eol])],
     \<comment> \<open>\u0110\u1ED1i t\u01B0\u1EE3ng(?:\s+tham gia|\s+h\u1ECDc)?.*?(?=IV\.|V\.|VI\.|Y\u00EAu c\u1EA7u|\u0110i\u1EC1u ki\u1EC7n|N\u1ED9i dung|$)\<close>
     cat [str ([0x110, 0x1ED1] @ asc ''i t'' @ [0x1B0, 0x1EE3] @ asc ''ng''), Opt (alts [cat [Plus (Set [Space]), str (asc ''tham gia'')], cat [Plus (Set [Space]), str (asc ''h'' @ [0x1ECD] @ asc ''c'')]]), LStar Dot, Look (alts [str (asc ''IV.''), str (asc ''V.''), str (asc ''VI.''), str (asc ''Y'' @ [0xEA] @ asc ''u c'' @ [0x1EA7] @ asc ''u''), str ([0x110] @ asc ''i'' @ [0x1EC1] @ asc ''u ki'' @ [0x1EC7] @ asc ''n''), str (asc ''N'' @ [0x1ED9] @ asc ''i dung''), Eol])],
     \<comment> \<open>\u0110\u1ED1i t\u01B0\u1EE3ng h\u1ECDc\s*:.*?(?=IV\.|V\.|Y\u00EAu c\u1EA7u|\u0110i\u1EC1u ki\u1EC7n|N\u1ED9i dung|$)\<close>
     cat [str ([0x110, 0x1ED1] @ asc ''i t'' @ [0x1B0, 0x1EE3] @ asc ''ng h'' @ [0x1ECD] @ asc ''c''), Star (Set [Space]), Lit 58, LStar Dot, Look (alts [str (asc ''IV.''), str (asc ''V.''), str (asc ''Y'' @ [0xEA] @ asc ''u c'' @ [0x1EA7] @ asc ''u''), str ([0x110] @ asc ''i'' @ [0x1EC1] @ asc ''u ki'' @ [0x1EC7] @ asc ''n''), str (asc ''N'' @ [0x1ED9] @ asc ''i dung''), Eol])]]\<close>

definition section2_prereq_patterns :: "rx list" where
  \<open>section2_prereq_patterns =
     \<comment> \<open>IV\.\s*(?:Y\u00EAu c\u1EA7u|\u0110i\u1EC1u ki\u1EC7n).*?(?=V\.|VI\.|N\u1ED9i dung|$)\<close>
    [cat [str (asc ''IV.''), Star (Set [Space]), alts [str (asc ''Y'' @ [0xEA] @ asc ''u c'' @ [0x1EA7] @ asc ''u''), str ([0x110] @ asc ''i'' @ [0x1EC1] @ asc ''u ki'' @ [0x1EC7] @ asc ''n'')], LStar Dot, Look (alts [str (asc ''V.''), str (asc ''VI.''), str (asc ''N'' @ [0x1ED9] @ asc ''i dung''), Eol])],
     \<comment> \<open>VI\.\s*\u0110i\u1EC1u ki\u1EC7n.*?(?=VII\.|VIII\.|N\u1ED9i dung|$)\<close>
     cat [str (asc ''VI.''), Star (Set [Space]), str ([0x110] @ asc ''i'' @ [0x1EC1] @ asc ''u ki'' @ [0x1EC7] @ asc ''n''), LStar Dot, Look (alts [str (asc ''VII.''), str (asc ''VIII.''), str (asc ''N'' @ [0x1ED9] @ asc ''i dung''), Eol])],
     \<comment> \<open>(?:\u0110i\u1EC1u ki\u1EC7n ti\u00EAn quy\u1EBFt|Y\u00EAu c\u1EA7u tr\u01B0\u1EDBc kh\u00F3a h\u1ECDc).*?(?=V\.|VI\.|VII\.|N\u1ED9i dung|$)\<close>
     cat [alts [str ([0x110] @ asc ''i'' @ [0x1EC1] @ asc ''u ki'' @ [0x1EC7] @ asc ''n ti'' @ [0xEA] @ asc ''n quy'' @ [0x1EBF] @ asc ''t''), str (asc ''Y'' @ [0xEA] @ asc ''u c'' @ [0x1EA7] @ asc ''u tr'' @ [0x1B0, 0x1EDB] @ asc ''c kh'' @ [0xF3] @ asc ''a h'' @ [0x1ECD] @ asc ''c'')], LStar Dot, Look (alts [str (asc ''V.''), str (asc ''VI.''), str (asc ''VII.''), str (asc ''N'' @ [0x1ED9] @ asc ''i dung''), Eol])]]\<close>

definition section2_fallback_patterns :: "rx list" where
  \<open>section2_fallback_patterns =
     \<comment> \<open>.*?(?:Qu\u1EA3n tr\u1ECB|Admin|Developer|K\u1EF9 s\u01B0|Chuy\u00EAn vi\u00EAn).*?(?=N\u1ED9i dung|\d+\.|$)\<close>
    [cat [LStar Dot, alts [str (asc ''Qu'' @ [0x1EA3] @ asc ''n tr'' @ [0x1ECB]), str (asc ''Admin''), str (asc ''Developer''), str (asc ''K'' @ [0x1EF9] @ asc '' s'' @ [0x1B0]), str (asc ''Chuy'' @ [0xEA] @ asc ''n vi'' @ [0xEA] @ asc ''n'')], LStar Dot, Look (alts [str (asc ''N'' @ [0x1ED9] @ asc ''i dung''), cat [Plus (Set [Digit]), Lit 46], Eol])],
     \<comment> \<open>.*?(?:ki\u1EBFn th\u1EE9c|kinh nghi\u1EC7m|y\u00EAu c\u1EA7u).*?(?:Linux|c\u01A1 b\u1EA3n|n\u1EC1n t\u1EA3ng).*?(?=N\u1ED9i dung|\d+\.|$)\<close>
     cat [LStar Dot, alts [str (asc ''ki'' @ [0x1EBF] @ asc ''n th'' @ [0x1EE9] @ asc ''c''), str (asc ''kinh nghi'' @ [0x1EC7] @ asc ''m''), str (asc ''y'' @ [0xEA] @ asc ''u c'' @ [0x1EA7] @ asc ''u'')], LStar Dot, alts [str (asc ''Linux''), str (asc ''c'' @ [0x1A1] @ asc '' b'' @ [0x1EA3] @ asc ''n''), str (asc ''n'' @ [0x1EC1] @ asc ''n t'' @ [0x1EA3] @ asc ''ng'')], LStar Dot, Look (alts [str (asc ''N'' @ [0x1ED9] @ asc ''i dung''), cat [Plus (Set [Digit]), Lit 46], Eol])]]\<close>

definition section3_content_patterns :: "rx list" where
  \<open>section3_content_patterns =
     \<comment> \<open>V\.\s*N\u1ED9i dung.*\<close>
    [cat [str (asc ''V.''), Star (Set [Space]), str (asc ''N'' @ [0x1ED9] @ asc ''i dung''), Star Dot],
     \<comment> \<open>VI\.\s*N\u1ED9i dung.*\<close>
     cat [str (asc ''VI.''), Star (Set [Space]), str (asc ''N'' @ [0x1ED9] @ asc ''i dung''), Star Dot],
     \<comment> \<open>VII\.\s*N\u1ED9i dung.*\<close>
     cat [str (asc ''VII.''), Star (Set [Space]), str (asc ''N'' @ [0x1ED9] @ asc ''i dung''), Star Dot],
     \<comment> \<open>N\u1ED9i dung kh\u00F3a h\u1ECDc.*\<close>
     cat [str (asc ''N'' @ [0x1ED9] @ asc ''i dung kh'' @ [0xF3] @ asc ''a h'' @ [0x1ECD] @ asc ''c''), Star Dot],
     \<comment> \<open>\d+\.\s*(?:Introduction|T\u1ED5ng quan|Overview).*\<close>
     cat [Plus (Set [Digit]), Lit 46, Star (Set [Space]), alts [str (asc ''Introduction''), str (asc ''T'' @ [0x1ED5] @ asc ''ng quan''), str (asc ''Overview'')], Star Dot],
     \<comment> \<open>Module\s*1.*\<close>
     cat [str (asc ''Module''), Star (Set [Space]), Lit 49, Star Dot],
     \<comment> \<open>Ch\u01B0\u01A1ng\s*1.*\<close>
     cat [str (asc ''Ch'' @ [0x1B0, 0x1A1] @ asc ''ng''), Star (Set [Space]), Lit 49, Star Dot]]\<close>

definition section3_module_patterns :: "rx list" where
  \<open>section3_module_patterns =
     \<comment> \<open>1\.\s*.*?(?:\n2\.|$)\<close>
    [cat [str (asc ''1.''), Star (Set [Space]), LStar Dot, alts [str ([10] @ asc ''2.''), Eol]],
     \<comment> \<open>Module.*?1.*\<close>
     cat [str (asc ''Module''), LStar Dot, Lit 49, Star Dot],
     \<comment> \<open>Introduction to.*\<close>
     cat [str (asc ''Introduction to''), Star Dot],
     \<comment> \<open>Hadoop.*Installation.*\<close>
     cat [str (asc ''Hadoop''), Star Dot, str (asc ''Installation''), Star Dot],
     \<comment> \<open>HDFS.*Components.*\<close>
     cat [str (asc ''HDFS''), Star Dot, str (asc ''Components''), Star Dot]]\<close>

fun first_match :: "rx list \<Rightarrow> ustring \<Rightarrow> rflags \<Rightarrow> rmatch option" where
  \<comment> \<open>the loop \<open>for pattern in patterns: match = re.search(...); if match: ...; break\<close>\<close>
  "first_match [] s f = None"
| "first_match (pattern # ps) s f =
     (case re_search pattern s f of Some m \<Rightarrow> Some m | None \<Rightarrow> first_match ps s f)"

definition keyword_pattern :: "ustring \<Rightarrow> rx" where
  \<comment> \<open>\<open>rf'(?:^|\n)\s*[\u2022\-\*]?\s*{re.escape(keyword)}'\<close>\<close>
  "keyword_pattern keyword = cat [cat [alts [Bol, Lit 10], Star (Set [Space]), Opt (Set [Ch 0x2022, Ch 45, Ch 42]), Star (Set [Space])], str keyword]"

definition find_section_boundaries :: "ustring \<Rightarrow> string \<Rightarrow> error + (nat \<times> nat) option" where
  "find_section_boundaries text section_name =
     (case map_of section_configs section_name of
        None \<Rightarrow> Inl KeyError
      | Some config \<Rightarrow>
          let text_lower = lower text;
              start_pos = (case first_match (patterns config) text_lower IGNORECASE_MULTILINE of
                             Some m \<Rightarrow> Some (m_start m)
                           | None \<Rightarrow>
                               (case first_match (map keyword_pattern (key_words config)) text_lower IGNORECASE of
                                  Some m \<Rightarrow> Some (m_start m)
                                | None \<Rightarrow> None))
          in (case start_pos of
                None \<Rightarrow> Inr None
              | Some start_pos \<Rightarrow>
                  let end_pos = length text;
                      end_pos = foldl (\<lambda>end_pos stop_pattern.
                                   case re_search stop_pattern (drop (start_pos + 50) text) IGNORECASE_MULTILINE of
                                     Some stop_match \<Rightarrow> min end_pos (start_pos + 50 + m_start stop_match)
                                   | None \<Rightarrow> end_pos) end_pos (stop_patterns config);
                      search_text = drop (start_pos + 100) text;
                      end_pos = foldl (\<lambda>end_pos stop_pattern.
                                   case re_search stop_pattern search_text IGNORECASE of
                                     Some stop_match \<Rightarrow> min end_pos (start_pos + 100 + m_start stop_match)
                                   | None \<Rightarrow> end_pos) end_pos generic_stops
                  in Inr (Some (start_pos, end_pos))))"

definition post_process_section :: "ustring \<Rightarrow> string \<Rightarrow> ustring" where
  "post_process_section content section_type =
     (if content = [] then []
      else
        let content =
              (if section_type = ''duration'' then
                 re_sub (cat [Grp 1 (Plus (Set [Digit])), Star (Set [Space]), Grp 2 (alts [str (asc ''gi'' @ [0x1EDD]), str (asc ''ng'' @ [0xE0] @ asc ''y''), str (asc ''tu'' @ [0x1EA7] @ asc ''n''), str (asc ''th'' @ [0xE1] @ asc ''ng'')])]) [G 1, T (asc '' ''), G 2] content IGNORECASE
               else if section_type = ''content'' then
                 re_sub (cat [str (asc ''Ch'' @ [0x1B0, 0x1A1] @ asc ''ng''), Star (Set [Space]), Grp 1 (Plus (Set [Digit]))]) [T ([10] @ asc ''Ch'' @ [0x1B0, 0x1A1] @ asc ''ng ''), G 1]
                   (re_sub (cat [str (asc ''Module''), Star (Set [Space]), Grp 1 (Plus (Set [Digit]))]) [T ([10] @ asc ''Module ''), G 1] content IGNORECASE) IGNORECASE
               else if section_type = ''objectives'' then
                 re_sub (cat [alts [Bol, Lit 10], Grp 1 (NSet [Ch 0x2022, Ch 10])]) [T ([10, 0x2022] @ asc '' ''), G 1] content NOFLAGS
               else content);
            content = re_sub (cat [Lit 10, Star (Set [Space]), Lit 10, Star (Set [Space]), Plus (Lit 10)]) [T ([10, 10])] content NOFLAGS
        in strip content)"

definition slice :: "nat \<Rightarrow> nat \<Rightarrow> ustring \<Rightarrow> ustring" where
  \<comment> \<open>\<open>text[a:b]\<close> for offsets that are not negative; empty when \<open>b \<le> a\<close>\<close>
  "slice a b text = take (b - a) (drop a text)"

definition extract_section_content :: "ustring \<Rightarrow> string \<Rightarrow> error + ustring" where
  "extract_section_content text section_name =
     (case find_section_boundaries text section_name of
        Inl e \<Rightarrow> Inl e
      | Inr None \<Rightarrow> Inr []
      | Inr (Some (start_pos, end_pos)) \<Rightarrow>
          (case map_of section_configs section_name of
             None \<Rightarrow> Inl KeyError
           | Some config \<Rightarrow>
               let section_text = slice start_pos end_pos text;
                   cleaned_text = clean_text section_text;
                   header_patterns =
                     [cat [str (title config), Opt (Lit 58)], cat [Bol, Plus (Set [Ch 105, Ch 118, Ch 120]), Lit 46, Star (Set [Space])], cat [Bol, Plus (Set [Digit]), Lit 46, Star (Set [Space])]];
                   cleaned_text = foldl (\<lambda>t pattern. re_sub pattern [] t IGNORECASE_MULTILINE)
                                    cleaned_text header_patterns;
                   cleaned_text = post_process_section cleaned_text section_name
               in Inr (strip cleaned_text)))"

text \<open>
  The three fixed sections. Each function receives \<open>raw_sections\<close>, as in the source,
  and does not read it.
\<close>

definition extract_precise_section1 :: "ustring \<Rightarrow> (string \<times> ustring) list \<Rightarrow> ustring" where
  "extract_precise_section1 text raw_sections =
     (let intro_text =
            (case first_match section1_intro_patterns text DOTALL_IGNORECASE of
               None \<Rightarrow> []
             | Some m \<Rightarrow>
                 re_sub (cat [Bol, alts [str (asc ''Gi'' @ [0x1EDB] @ asc ''i thi'' @ [0x1EC7] @ asc ''u''), str (asc ''T'' @ [0x1ED5] @ asc ''ng quan'')], LStar Dot, Lit 58, Star (Set [Space])]) []
                   (re_sub (cat [Bol, str (asc ''I.''), Star (Set [Space]), alts [str (asc ''Gi'' @ [0x1EDB] @ asc ''i thi'' @ [0x1EC7] @ asc ''u''), str (asc ''T'' @ [0x1ED5] @ asc ''ng quan'')], LStar Dot, Lit 58, Star (Set [Space])]) [] (strip (m_group m)) IGNORECASE)
                   IGNORECASE);
          parts = (if intro_text \<noteq> [] then [(asc ''T'' @ [0x1ED5] @ asc ''ng quan kh'' @ [0xF3] @ asc ''a h'' @ [0x1ECD] @ asc ''c:'' @ [10]) @ intro_text] else []);
          duration_text =
            (case first_match section1_duration_patterns text DOTALL_IGNORECASE of
               None \<Rightarrow> []
             | Some m \<Rightarrow>
                 let duration_text = strip (m_group m);
                     duration_text = re_sub (cat [Bol, str (asc ''II.''), Star (Set [Space]), str (asc ''Th'' @ [0x1EDD] @ asc ''i l'' @ [0x1B0, 0x1EE3] @ asc ''ng''), LStar Dot, Lit 58, Star (Set [Space])]) [] duration_text IGNORECASE;
                     duration_text = re_sub (cat [Bol, str (asc ''Th'' @ [0x1EDD] @ asc ''i l'' @ [0x1B0, 0x1EE3] @ asc ''ng''), LStar Dot, Lit 58, Star (Set [Space])]) [] duration_text IGNORECASE;
                     duration_text = re_sub (cat [str (asc ''III.''), Star (Set [Space]), str (asc ''H'' @ [0xEC] @ asc ''nh th'' @ [0x1EE9] @ asc ''c''), Star Dot]) [] duration_text DOTALL_IGNORECASE;
                     duration_text = re_sub (cat [str (asc ''H'' @ [0xEC] @ asc ''nh th'' @ [0x1EE9] @ asc ''c '' @ [0x111, 0xE0] @ asc ''o t'' @ [0x1EA1] @ asc ''o''), Star Dot]) [] duration_text DOTALL_IGNORECASE
                 in duration_text);
          parts = (if duration_text \<noteq> [] then parts @ [(asc ''Th'' @ [0x1EDD] @ asc ''i l'' @ [0x1B0, 0x1EE3] @ asc ''ng:'' @ [10]) @ duration_text] else parts);
          result = (if parts \<noteq> [] then join [10, 10] parts else []);
          result =
            (if result = [] \<or> length (strip result) < 50 then
               (case first_match section1_meaningful_patterns text DOTALL_IGNORECASE of
                  Some m \<Rightarrow> (asc ''T'' @ [0x1ED5] @ asc ''ng quan kh'' @ [0xF3] @ asc ''a h'' @ [0x1ECD] @ asc ''c:'' @ [10]) @ strip (m_group m)
                | None \<Rightarrow> result)
             else result)
      in if result \<noteq> [] then result else (asc ''Th'' @ [0xF4] @ asc ''ng tin gi'' @ [0x1EDB] @ asc ''i thi'' @ [0x1EC7] @ asc ''u v'' @ [0xE0] @ asc '' th'' @ [0x1EDD] @ asc ''i l'' @ [0x1B0, 0x1EE3] @ asc ''ng kh'' @ [0xF3] @ asc ''a h'' @ [0x1ECD] @ asc ''c.''))"

definition extract_precise_section2 :: "ustring \<Rightarrow> (string \<times> ustring) list \<Rightarrow> ustring" where
  "extract_precise_section2 text raw_sections =
     (let objectives_text =
            (case first_match section2_objectives_patterns text DOTALL_IGNORECASE of
               None \<Rightarrow> []
             | Some m \<Rightarrow>
                 re_sub (cat [Bol, str (asc ''M'' @ [0x1EE5] @ asc ''c ti'' @ [0xEA] @ asc ''u''), LStar Dot, Lit 58, Star (Set [Space])]) []
                   (re_sub (cat [Bol, str (asc ''IV.''), Star (Set [Space]), str (asc ''M'' @ [0x1EE5] @ asc ''c ti'' @ [0xEA] @ asc ''u''), LStar Dot, Lit 58, Star (Set [Space])]) [] (strip (m_group m)) IGNORECASE)
                   IGNORECASE);
          parts = (if objectives_text \<noteq> [] then [(asc ''M'' @ [0x1EE5] @ asc ''c ti'' @ [0xEA] @ asc ''u kh'' @ [0xF3] @ asc ''a h'' @ [0x1ECD] @ asc ''c:'' @ [10]) @ objectives_text] else []);
          audience_text =
            (case first_match section2_audience_patterns text DOTALL_IGNORECASE of
               None \<Rightarrow> []
             | Some m \<Rightarrow>
                 re_sub (cat [Bol, str ([0x110, 0x1ED1] @ asc ''i t'' @ [0x1B0, 0x1EE3] @ asc ''ng''), LStar Dot, Lit 58, Star (Set [Space])]) []
                   (re_sub (cat [Bol, alts [str (asc ''III.''), str (asc ''V.'')], Star (Set [Space]), str ([0x110, 0x1ED1] @ asc ''i t'' @ [0x1B0, 0x1EE3] @ asc ''ng''), LStar Dot, Lit 58, Star (Set [Space])]) [] (strip (m_group m)) IGNORECASE)
                   IGNORECASE);
          parts = (if audience_text \<noteq> [] then parts @ [([0x110, 0x1ED1] @ asc ''i t'' @ [0x1B0, 0x1EE3] @ asc ''ng tham gia:'' @ [10]) @ audience_text] else parts);
          prereq_text =
            (case first_match section2_prereq_patterns text DOTALL_IGNORECASE of
               None \<Rightarrow> []
             | Some m \<Rightarrow>
                 re_sub (cat [Bol, alts [str ([0x110] @ asc ''i'' @ [0x1EC1] @ asc ''u ki'' @ [0x1EC7] @ asc ''n''), str (asc ''Y'' @ [0xEA] @ asc ''u c'' @ [0x1EA7] @ asc ''u'')], LStar Dot, Lit 58, Star (Set [Space])]) []
                   (re_sub (cat [Bol, alts [str (asc ''IV.''), str (asc ''VI.'')], Star (Set [Space]), alts [str ([0x110] @ asc ''i'' @ [0x1EC1] @ asc ''u ki'' @ [0x1EC7] @ asc ''n''), str (asc ''Y'' @ [0xEA] @ asc ''u c'' @ [0x1EA7] @ asc ''u'')], LStar Dot, Lit 58, Star (Set [Space])]) [] (strip (m_group m)) IGNORECASE)
                   IGNORECASE);
          parts = (if prereq_text \<noteq> [] then parts @ [([0x110] @ asc ''i'' @ [0x1EC1] @ asc ''u ki'' @ [0x1EC7] @ asc ''n ti'' @ [0xEA] @ asc ''n quy'' @ [0x1EBF] @ asc ''t:'' @ [10]) @ prereq_text] else parts);
          result = (if parts \<noteq> [] then join [10, 10] parts else []);
          result =
            (if result = [] \<or> length (strip result) < 50 then
               (case first_match section2_fallback_patterns text DOTALL_IGNORECASE of
                  Some m \<Rightarrow> ([0x110, 0x1ED1] @ asc ''i t'' @ [0x1B0, 0x1EE3] @ asc ''ng v'' @ [0xE0] @ asc '' y'' @ [0xEA] @ asc ''u c'' @ [0x1EA7] @ asc ''u:'' @ [10]) @ strip (m_group m)
                | None \<Rightarrow> result)
             else result)
      in if result \<noteq> [] then result else (asc ''Th'' @ [0xF4] @ asc ''ng tin m'' @ [0x1EE5] @ asc ''c ti'' @ [0xEA] @ asc ''u v'' @ [0xE0] @ asc '' '' @ [0x111, 0x1ED1] @ asc ''i t'' @ [0x1B0, 0x1EE3] @ asc ''ng kh'' @ [0xF3] @ asc ''a h'' @ [0x1ECD] @ asc ''c.''))"

definition extract_precise_section3 :: "ustring \<Rightarrow> (string \<times> ustring) list \<Rightarrow> ustring" where
  "extract_precise_section3 text raw_sections =
     (let content_text =
            (case first_match section3_content_patterns text DOTALL_IGNORECASE of
               None \<Rightarrow> []
             | Some m \<Rightarrow>
                 re_sub (cat [Bol, str (asc ''N'' @ [0x1ED9] @ asc ''i dung kh'' @ [0xF3] @ asc ''a h'' @ [0x1ECD] @ asc ''c''), Star (Set [Space]), Lit 58, Star (Set [Space])]) []
                   (re_sub (cat [Bol, alts [str (asc ''V.''), str (asc ''VI.''), str (asc ''VII.'')], Star (Set [Space]), str (asc ''N'' @ [0x1ED9] @ asc ''i dung''), LStar Dot, Lit 58, Star (Set [Space])]) [] (strip (m_group m)) IGNORECASE)
                   IGNORECASE);
          content_text =
            (if content_text = [] \<or> length (strip content_text) < 100 then
               (case first_match section3_module_patterns text DOTALL_IGNORECASE of
                  Some m \<Rightarrow> take 1000 (drop (m_start m) text)
                | None \<Rightarrow> content_text)
             else content_text)
      in if content_text \<noteq> [] then (asc ''N'' @ [0x1ED9] @ asc ''i dung kh'' @ [0xF3] @ asc ''a h'' @ [0x1ECD] @ asc ''c:'' @ [10]) @ content_text
         else (asc ''N'' @ [0x1ED9] @ asc ''i dung kh'' @ [0xF3] @ asc ''a h'' @ [0x1ECD] @ asc ''c: Th'' @ [0xF4] @ asc ''ng tin chi ti'' @ [0x1EBF] @ asc ''t v'' @ [0x1EC1] @ asc '' ch'' @ [0x1B0, 0x1A1] @ asc ''ng tr'' @ [0xEC] @ asc ''nh h'' @ [0x1ECD] @ asc ''c.''))"

definition create_fixed_sections :: "(string \<times> ustring) list \<Rightarrow> ustring \<Rightarrow> (string \<times> ustring) list" where
  "create_fixed_sections raw_sections full_text =
     (let fixed_sections = [];
          cleaned_full_text = clean_text full_text;
          section1_content = extract_precise_section1 cleaned_full_text raw_sections;
          fixed_sections = AList.update ''section1_intro_duration'' section1_content fixed_sections;
          section2_content = extract_precise_section2 cleaned_full_text raw_sections;
          fixed_sections = AList.update ''section2_objectives_audience'' section2_content fixed_sections;
          section3_content = extract_precise_section3 cleaned_full_text raw_sections;
          fixed_sections = AList.update ''section3_content'' section3_content fixed_sections
      in fixed_sections)"

fun collect_raw_sections ::
  "ustring \<Rightarrow> string list \<Rightarrow> (string \<times> ustring) list \<Rightarrow> error + (string \<times> ustring) list" where
  \<comment> \<open>the loop of \<open>extract_course_info\<close> over \<open>section_configs.keys()\<close>\<close>
  "collect_raw_sections cleaned_text [] raw_sections = Inr raw_sections"
| "collect_raw_sections cleaned_text (section_name # names) raw_sections =
     (case extract_section_content cleaned_text section_name of
        Inl e \<Rightarrow> Inl e
      | Inr content \<Rightarrow>
          collect_raw_sections cleaned_text names
            (if content \<noteq> [] \<and> length (strip content) > 30
             then AList.update section_name content raw_sections else raw_sections))"

definition extract_course_info :: "ustring \<Rightarrow> error + (string \<times> ustring) list" where
  "extract_course_info text =
     (if text = [] \<or> length (strip text) < 100 then Inr []
      else
        let cleaned_text = clean_text text
        in (case collect_raw_sections cleaned_text (map fst section_configs) [] of
              Inl e \<Rightarrow> Inl e
            | Inr raw_sections \<Rightarrow> Inr (create_fixed_sections raw_sections cleaned_text)))"

section \<open>The document builder (pdf_loader.py, class PDFLoader)\<close>

text \<open>
  \<open>load_pdf_file\<close> reads the pages with a PDF library, joins them with newlines, runs the
  extractor and wraps the sections. The model starts from the page texts; \<open>source\<close> is
  \<open>os.path.basename(file_path)\<close> and \<open>course_name\<close> that name without its extension.
  The chunks of \<open>fallback_chunking\<close> come from a text splitter outside the repository and
  are a parameter. An exception raised on the way is caught and gives the empty list.
\<close>

record document =
  page_content :: ustring
  metadata :: "(string \<times> ustring) list"

record loader_section =
  section_title :: ustring
  section_type :: ustring

definition loader_section_configs :: "(string \<times> loader_section) list" where
  \<comment> \<open>the dictionary \<open>section_configs\<close> local to \<open>load_pdf_file\<close>\<close>
  "loader_section_configs =
    [(''section1_intro_duration'',
        \<lparr>section_title = (asc ''Gi'' @ [0x1EDB] @ asc ''i thi'' @ [0x1EC7] @ asc ''u v'' @ [0xE0] @ asc '' Th'' @ [0x1EDD] @ asc ''i l'' @ [0x1B0, 0x1EE3] @ asc ''ng''), section_type = asc ''intro_duration''\<rparr>),
     (''section2_objectives_audience'',
        \<lparr>section_title = (asc ''M'' @ [0x1EE5] @ asc ''c ti'' @ [0xEA] @ asc ''u v'' @ [0xE0] @ asc '' '' @ [0x110, 0x1ED1] @ asc ''i t'' @ [0x1B0, 0x1EE3] @ asc ''ng''), section_type = asc ''objectives_audience''\<rparr>),
     (''section3_content'',
        \<lparr>section_title = (asc ''N'' @ [0x1ED9] @ asc ''i dung Kh'' @ [0xF3] @ asc ''a h'' @ [0x1ECD] @ asc ''c''), section_type = asc ''course_content''\<rparr>)]"

definition section_document ::
  "ustring \<Rightarrow> ustring \<Rightarrow> (string \<times> ustring) list \<Rightarrow> string \<times> loader_section \<Rightarrow> document" where
  \<comment> \<open>the body of the loop over \<open>section_configs.items()\<close>\<close>
  "section_document source course_name course_info item =
     (case item of (section_key, config) \<Rightarrow>
        let content =
              (case map_of course_info section_key of
                 Some c \<Rightarrow> c
               | None \<Rightarrow> (asc ''Th'' @ [0xF4] @ asc ''ng tin '') @ section_title config @ (asc '' c'' @ [0x1EE7] @ asc ''a kh'' @ [0xF3] @ asc ''a h'' @ [0x1ECD] @ asc ''c.''))
        in \<lparr>page_content = content,
            metadata = [(''source'', source), (''course_name'', course_name),
                        (''section'', asc section_key), (''section_title'', section_title config),
                        (''section_type'', section_type config)]\<rparr>)"

definition load_pdf_file :: "ustring \<Rightarrow> ustring \<Rightarrow> ustring list \<Rightarrow> document list \<Rightarrow> document list" where
  "load_pdf_file source course_name pages fallback_chunks =
     (let full_text = join [10] pages
      in case extract_course_info full_text of
           Inl e \<Rightarrow> []
         | Inr course_info \<Rightarrow>
             if course_info \<noteq> [] \<and> length course_info \<ge> 2
             then map (section_document source course_name course_info) loader_section_configs
             else fallback_chunks)"

section \<open>Auxiliary definitions\<close>

text \<open>
  The states a lazy \<open>.*?\<close> offers under DOTALL, in order: every position from the
  current one to the end of the text.
\<close>

abbreviation rest :: "mstate \<Rightarrow> ustring" where
  "rest st \<equiv> fst (snd st)"

fun suffix_states :: "cp option \<Rightarrow> ustring \<Rightarrow> (nat \<times> ustring) list \<Rightarrow> mstate list" where
  "suffix_states p [] g = [(p, [], g)]"
| "suffix_states p (c # s) g = (p, c # s, g) # suffix_states (Some c) s g"

fun lazy_dot_body :: "rx \<Rightarrow> rx option" where
  \<comment> \<open>the rest of a pattern that starts with \<open>.*?\<close>\<close>
  "lazy_dot_body (Seq (LStar Dot) r) = Some r"
| "lazy_dot_body r = None"

text \<open>
  A quick test that a pattern matches nowhere in a text. A match of a pattern needs one
  of a few literal strings to occur in the text it is tried on: \<open>pre\<close> lists strings one
  of which every match starts with, \<open>fac\<close> strings one of which occurs at or after the
  position of every match (and under a lookahead). The empty string in a list says that
  nothing is known. \<open>rejects\<close> holds when the text has none of the strings of \<open>fac\<close>;
  the engine then finds no match (lemma \<open>rejects_sound\<close>), which the evaluation of a
  search uses before it runs the engine.
\<close>

fun lit_str :: "rx \<Rightarrow> ustring option" where
  \<comment> \<open>the string of a pattern made of literal characters only\<close>
  "lit_str (Lit a) = Some [a]"
| "lit_str Eps = Some []"
| "lit_str (Seq a b) =
     (case lit_str a of
        None \<Rightarrow> None
      | Some x \<Rightarrow> (case lit_str b of None \<Rightarrow> None | Some y \<Rightarrow> Some (x @ y)))"
| "lit_str r = None"

fun pre :: "rx \<Rightarrow> ustring list" where
  "pre (Lit a) = [[a]]"
| "pre (Seq a b) = (case lit_str a of Some x \<Rightarrow> map ((@) x) (pre b) | None \<Rightarrow> pre a)"
| "pre (Alt a b) = pre a @ pre b"
| "pre (Plus a) = pre a"
| "pre (Grp n a) = pre a"
| "pre r = [[]]"

fun fac :: "rx \<Rightarrow> ustring list" where
  "fac (Lit a) = [[a]]"
| "fac (Seq a b) =
     (if \<not> list_ex (\<lambda>h. h = []) (pre (Seq a b)) then pre (Seq a b)
      else if \<not> list_ex (\<lambda>h. h = []) (fac a) then fac a
      else fac b)"
| "fac (Alt a b) = fac a @ fac b"
| "fac (Plus a) = fac a"
| "fac (Grp n a) = fac a"
| "fac (Look a) = fac a"
| "fac r = [[]]"

fun starts_f :: "rflags \<Rightarrow> ustring \<Rightarrow> ustring \<Rightarrow> bool" where
  \<comment> \<open>the text starts with the string, compared as the flags compare a literal\<close>
  "starts_f f [] s = True"
| "starts_f f (a # h) [] = False"
| "starts_f f (a # h) (c # s) = (lit_eq f a c \<and> starts_f f h s)"

fun contains_f :: "rflags \<Rightarrow> ustring \<Rightarrow> ustring \<Rightarrow> bool" where
  "contains_f f h [] = (h = [])"
| "contains_f f h (c # s) = (starts_f f h (c # s) \<or> contains_f f h s)"

definition fold_key :: "rflags \<Rightarrow> ustring \<Rightarrow> ustring" where
  "fold_key f s = (if ignorecase f then map cp_fold s else s)"

definition rejects :: "rflags \<Rightarrow> rx \<Rightarrow> ustring \<Rightarrow> bool" where
  "rejects f r s =
     (let hs = fac r
      in if list_ex (\<lambda>h. h = []) hs then False
         else (let s' = fold_key f s in list_all (\<lambda>h. \<not> contains (fold_key f h) s') hs))"





text \<open>The inputs at which the theorems below evaluate the program.\<close>

definition plain_prose :: ustring where
  \<comment> \<open>107 characters of prose without any heading\<close>
  "plain_prose = (asc ''The quick brown fox jumps over the lazy dog while the sun sets behind the hills and the river runs quietly.'')"

definition blank_padded_page :: ustring where
  \<comment> \<open>a title line followed by 100 line breaks\<close>
  "blank_padded_page = asc ''Robusta training brochure'' @ replicate 100 10"

definition module_address_line :: ustring where
  \<comment> \<open>the line "Module 3 \<emdash> T\<dots>ng 5, Qu\<dots>n 1", with its dash U+2014\<close>
  "module_address_line = (asc ''Module 3 '' @ [0x2014] @ asc '' T'' @ [0x1EA7] @ asc ''ng 5, Qu'' @ [0x1EAD] @ asc ''n 1'')"

definition duration_then_format_doc :: ustring where
  \<comment> \<open>a duration statement, then a training-format heading and its body\<close>
  "duration_then_format_doc = (asc ''Kh'' @ [0xF3] @ asc ''a h'' @ [0x1ECD] @ asc ''c n'' @ [0xE0] @ asc ''y gi'' @ [0xFA] @ asc ''p b'' @ [0x1EA1] @ asc ''n l'' @ [0xE0] @ asc ''m ch'' @ [0x1EE7] @ asc '' c'' @ [0xF4] @ asc ''ng ngh'' @ [0x1EC7] @ asc ''. II. Th'' @ [0x1EDD] @ asc ''i l'' @ [0x1B0, 0x1EE3] @ asc ''ng: 40 gi'' @ [0x1EDD] @ asc ''. H'' @ [0xEC] @ asc ''nh th'' @ [0x1EE9] @ asc ''c '' @ [0x111, 0xE0] @ asc ''o t'' @ [0x1EA1] @ asc ''o: Online tr'' @ [0x1EF1] @ asc ''c tuy'' @ [0x1EBF] @ asc ''n qua Zoom.'')"

definition format_body :: ustring where
  "format_body = (asc ''Online tr'' @ [0x1EF1] @ asc ''c tuy'' @ [0x1EBF] @ asc ''n qua Zoom.'')"





definition dotted_capitals_text :: ustring where
  \<comment> \<open>nine capital I with dot above (U+0130), then "t\<dots>ng quan"\<close>
  "dotted_capitals_text = replicate 9 0x130 @ (asc ''t'' @ [0x1ED5] @ asc ''ng quan'')"

section \<open>The matcher finds nothing where a pattern's literals are absent\<close>

text \<open>
  These lemmas justify the quick test \<open>rejects\<close> and the treatment of a leading
  \<open>.*?\<close>; the equations marked for evaluation make a search try them before it runs
  the engine. They change no definition.
\<close>



lemma one_char_elim:
  assumes "st' \<in> set (one_char P st)"
  obtains c where "rest st = c # rest st'" "P c"
  using assms by (auto simp: one_char_def split: prod.splits list.splits if_splits)

lemma starts_f_append:
  "starts_f f x s \<Longrightarrow> starts_f f y (drop (length x) s) \<Longrightarrow> starts_f f (x @ y) s"
  by (induction f x s rule: starts_f.induct) auto

lemma lit_str_sound:
  "lit_str r = Some L \<Longrightarrow> st' \<in> set (rx_ends f r st) \<Longrightarrow>
     starts_f f L (rest st) \<and> rest st' = drop (length L) (rest st)"
proof (induction r arbitrary: L st st' rule: lit_str.induct)
  case (1 a)
  then show ?case by (auto elim!: one_char_elim)
next
  case 2
  then show ?case by simp
next
  case (3 a b)
  from "3.prems"(1) obtain x y where x: "lit_str a = Some x" and y: "lit_str b = Some y"
    and L: "L = x @ y"
    by (auto split: option.splits)
  from "3.prems"(2) obtain st'' where a: "st'' \<in> set (rx_ends f a st)"
    and b: "st' \<in> set (rx_ends f b st'')"
    by auto
  from "3.IH"(1) [OF x a] have 1: "starts_f f x (rest st)" "rest st'' = drop (length x) (rest st)"
    by simp_all
  from "3.IH"(2) [OF x y b] have 2: "starts_f f y (rest st'')" "rest st' = drop (length y) (rest st'')"
    by simp_all
  show ?case using 1 2 by (simp add: L starts_f_append add.commute)
qed simp_all

lemma pre_sound:
  "rx_ends f r st \<noteq> [] \<Longrightarrow> \<exists>h \<in> set (pre r). starts_f f h (rest st)"
proof (induction r arbitrary: st rule: pre.induct)
  case (1 a)
  then obtain st' where "st' \<in> set (rx_ends f (Lit a) st)" by (cases "rx_ends f (Lit a) st") auto
  then show ?case by (auto elim!: one_char_elim)
next
  case (2 a b)
  from "2.prems" obtain st'' where a: "st'' \<in> set (rx_ends f a st)" and b: "rx_ends f b st'' \<noteq> []"
    by auto
  show ?case
  proof (cases "lit_str a")
    case None
    from a have "rx_ends f a st \<noteq> []" by auto
    from "2.IH"(1) [OF None this] show ?thesis by (simp add: None)
  next
    case (Some x)
    from lit_str_sound [OF Some a] have x: "starts_f f x (rest st)" "rest st'' = drop (length x) (rest st)"
      by simp_all
    from "2.IH"(2) [OF Some b] obtain h where h: "h \<in> set (pre b)" "starts_f f h (rest st'')"
      by blast
    with x have "starts_f f (x @ h) (rest st)" by (simp add: starts_f_append)
    with h(1) show ?thesis by (auto simp: Some)
  qed
next
  case (3 a b)
  then have "rx_ends f a st \<noteq> [] \<or> rx_ends f b st \<noteq> []" by simp
  then show ?case
  proof
    assume "rx_ends f a st \<noteq> []"
    from "3.IH"(1) [OF this] show ?thesis by auto
  next
    assume "rx_ends f b st \<noteq> []"
    from "3.IH"(2) [OF this] show ?thesis by auto
  qed
next
  case (4 a)
  then have "rx_ends f a st \<noteq> []" by auto
  from "4.IH" [OF this] show ?case by simp
next
  case (5 n a)
  then have "rx_ends f a st \<noteq> []" by auto
  from "5.IH" [OF this] show ?case by simp
qed simp_all

lemma star_greedy_suffix:
  assumes step: "\<And>st st'. st' \<in> set (step st) \<Longrightarrow> suffix (rest st') (rest st)"
  shows "st' \<in> set (star_greedy step k st) \<Longrightarrow> suffix (rest st') (rest st)"
proof (induction k arbitrary: st)
  case 0
  then show ?case by simp
next
  case (Suc k)
  from Suc.prems consider "st' = st"
    | st'' where "st'' \<in> set (step st)" "st' \<in> set (star_greedy step k st'')"
    by (auto split: if_splits)
  then show ?case
  proof cases
    case 1
    then show ?thesis by simp
  next
    case 2
    from step [OF 2(1)] Suc.IH [OF 2(2)] show ?thesis
      by (rule suffix_order.trans [rotated])
  qed
qed

lemma star_lazy_suffix:
  assumes step: "\<And>st st'. st' \<in> set (step st) \<Longrightarrow> suffix (rest st') (rest st)"
  shows "st' \<in> set (star_lazy step k st) \<Longrightarrow> suffix (rest st') (rest st)"
proof (induction k arbitrary: st)
  case 0
  then show ?case by simp
next
  case (Suc k)
  from Suc.prems consider "st' = st"
    | st'' where "st'' \<in> set (step st)" "st' \<in> set (star_lazy step k st'')"
    by (auto split: if_splits)
  then show ?case
  proof cases
    case 1
    then show ?thesis by simp
  next
    case 2
    from step [OF 2(1)] Suc.IH [OF 2(2)] show ?thesis
      by (rule suffix_order.trans [rotated])
  qed
qed

lemma rep_suffix:
  assumes step: "\<And>st st'. st' \<in> set (step st) \<Longrightarrow> suffix (rest st') (rest st)"
  shows "st' \<in> set (((\<lambda>sts. concat (map step sts)) ^^ n) [st]) \<Longrightarrow> suffix (rest st') (rest st)"
proof (induction n arbitrary: st')
  case 0
  then show ?case by simp
next
  case (Suc n)
  from Suc.prems obtain st'' where 1: "st'' \<in> set (((\<lambda>sts. concat (map step sts)) ^^ n) [st])"
    and 2: "st' \<in> set (step st'')"
    by auto
  from step [OF 2] Suc.IH [OF 1] show ?case
    by (rule suffix_order.trans)
qed

lemma rx_ends_suffix:
  "st' \<in> set (rx_ends f r st) \<Longrightarrow> suffix (rest st') (rest st)"
proof (induction r arbitrary: st st')
  case (Lit a)
  then show ?case by (auto elim!: one_char_elim simp: suffix_Cons)
next
  case Dot
  then show ?case by (auto elim!: one_char_elim simp: suffix_Cons)
next
  case (Set cs)
  then show ?case by (auto elim!: one_char_elim simp: suffix_Cons)
next
  case (NSet cs)
  then show ?case by (auto elim!: one_char_elim simp: suffix_Cons)
next
  case Bol
  then show ?case by (auto split: if_splits)
next
  case Eol
  then show ?case by (auto split: list.splits if_splits)
next
  case Eps
  then show ?case by simp
next
  case (Seq a b)
  from Seq.prems obtain st'' where 1: "st'' \<in> set (rx_ends f a st)"
    and 2: "st' \<in> set (rx_ends f b st'')"
    by auto
  from Seq.IH(2) [OF 2] Seq.IH(1) [OF 1] show ?case
    by (rule suffix_order.trans)
next
  case (Alt a b)
  then have "st' \<in> set (rx_ends f a st) \<or> st' \<in> set (rx_ends f b st)" by simp
  then show ?case
  proof
    assume "st' \<in> set (rx_ends f a st)"
    then show ?thesis by (rule Alt.IH(1))
  next
    assume "st' \<in> set (rx_ends f b st)"
    then show ?thesis by (rule Alt.IH(2))
  qed
next
  case (Star a)
  from Star.prems have "st' \<in> set (star_greedy (rx_ends f a) (remaining st) st)" by simp
  with Star.IH show ?case by (rule star_greedy_suffix)
next
  case (LStar a)
  from LStar.prems have "st' \<in> set (star_lazy (rx_ends f a) (remaining st) st)" by simp
  with LStar.IH show ?case by (rule star_lazy_suffix)
next
  case (Plus a)
  then obtain st'' where 1: "st'' \<in> set (rx_ends f a st)"
    and 2: "st' \<in> set (star_greedy (rx_ends f a) (remaining st'') st'')"
    by auto
  have "suffix (rest st') (rest st'')"
    using Plus.IH 2 by (rule star_greedy_suffix)
  from this Plus.IH [OF 1] show ?case
    by (rule suffix_order.trans)
next
  case (Opt a)
  then have "st' \<in> set (rx_ends f a st) \<or> st' = st" by auto
  then show ?case
  proof
    assume "st' \<in> set (rx_ends f a st)"
    then show ?thesis by (rule Opt.IH)
  qed simp
next
  case (Rep n a)
  from Rep.prems have "st' \<in> set (((\<lambda>sts. concat (map (rx_ends f a) sts)) ^^ n) [st])" by simp
  with Rep.IH show ?case by (rule rep_suffix)
next
  case (Look a)
  then show ?case by (simp split: if_splits)
next
  case (Grp n a)
  from Grp.prems obtain st'' where 1: "st'' \<in> set (rx_ends f a st)" and 2: "st' = capture n st st''"
    by auto
  from 2 have "rest st' = rest st''" by (simp add: capture_def split: prod.splits)
  with Grp.IH [OF 1] show ?case by simp
qed

lemma contains_f_Nil: "contains_f f [] s"
  by (cases s) simp_all

lemma starts_contains_f: "starts_f f h s \<Longrightarrow> contains_f f h s"
  by (cases s; cases h) auto

lemma contains_f_suffix: "suffix s' s \<Longrightarrow> contains_f f h s' \<Longrightarrow> contains_f f h s"
proof (induction s)
  case Nil
  then show ?case by simp
next
  case (Cons c s)
  then show ?case by (auto simp: suffix_Cons)
qed

lemma fac_sound:
  "rx_ends f r st \<noteq> [] \<Longrightarrow> \<exists>h \<in> set (fac r). contains_f f h (rest st)"
proof (induction r arbitrary: st rule: fac.induct)
  case (1 a)
  from pre_sound [OF this] show ?case by (auto intro: starts_contains_f)
next
  case (2 a b)
  from "2.prems" obtain st'' where a: "st'' \<in> set (rx_ends f a st)" and b: "rx_ends f b st'' \<noteq> []"
    by auto
  from a have a': "rx_ends f a st \<noteq> []" by auto
  have p: "\<exists>h \<in> set (pre (Seq a b)). contains_f f h (rest st)"
    using pre_sound [OF "2.prems"] by (blast intro: starts_contains_f)
  show ?case
  proof (cases "\<not> list_ex (\<lambda>h. h = []) (pre (Seq a b))")
    case True
    with p show ?thesis by (simp del: pre.simps)
  next
    case False
    note np = this
    show ?thesis
    proof (cases "\<not> list_ex (\<lambda>h. h = []) (fac a)")
      case True
      from np a' have "\<exists>h \<in> set (fac a). contains_f f h (rest st)"
        by (rule "2.IH"(1))
      with np True show ?thesis by (simp del: pre.simps)
    next
      case False
      from np False b have "\<exists>h \<in> set (fac b). contains_f f h (rest st'')"
        by (rule "2.IH"(3))
      then obtain h where h: "h \<in> set (fac b)" "contains_f f h (rest st'')"
        by blast
      from rx_ends_suffix [OF a] h(2) have "contains_f f h (rest st)"
        by (rule contains_f_suffix)
      with h(1) np False show ?thesis by (auto simp del: pre.simps)
    qed
  qed
next
  case (3 a b)
  then have "rx_ends f a st \<noteq> [] \<or> rx_ends f b st \<noteq> []" by simp
  then show ?case
  proof
    assume "rx_ends f a st \<noteq> []"
    from "3.IH"(1) [OF this] show ?thesis by auto
  next
    assume "rx_ends f b st \<noteq> []"
    from "3.IH"(2) [OF this] show ?thesis by auto
  qed
next
  case (4 a)
  then have "rx_ends f a st \<noteq> []" by auto
  from "4.IH" [OF this] show ?case by simp
next
  case (5 n a)
  then have "rx_ends f a st \<noteq> []" by auto
  from "5.IH" [OF this] show ?case by simp
next
  case (6 a)
  then have "rx_ends f a st \<noteq> []" by (auto split: if_splits)
  from "6.IH" [OF this] show ?case by simp
qed (simp_all add: contains_f_Nil)

lemma starts_with_fold_key:
  "starts_f f h s \<Longrightarrow> starts_with (fold_key f h) (fold_key f s)"
  by (induction f h s rule: starts_f.induct) (auto simp: fold_key_def lit_eq_def)

lemma contains_fold_key:
  "contains_f f h s \<Longrightarrow> contains (fold_key f h) (fold_key f s)"
proof (induction s)
  case Nil
  then show ?case by (simp add: fold_key_def)
next
  case (Cons c s)
  from Cons.prems have "starts_f f h (c # s) \<or> contains_f f h s" by simp
  then show ?case
  proof
    assume "starts_f f h (c # s)"
    from starts_with_fold_key [OF this] show ?thesis
      by (simp add: fold_key_def split: if_splits)
  next
    assume "contains_f f h s"
    from Cons.IH [OF this] show ?thesis
      by (simp add: fold_key_def split: if_splits)
  qed
qed

lemma rejects_sound:
  assumes "rejects f r s" and "suffix s' s"
  shows "rx_ends f r (p, s', g) = []"
proof (rule ccontr)
  assume "rx_ends f r (p, s', g) \<noteq> []"
  from fac_sound [OF this] obtain h where h: "h \<in> set (fac r)" and "contains_f f h s'"
    by auto
  with assms(2) have "contains_f f h s" by (auto intro: contains_f_suffix)
  then have "contains (fold_key f h) (fold_key f s)" by (rule contains_fold_key)
  with assms(1) h show False
    by (auto simp: rejects_def Let_def list_all_iff split: if_splits)
qed

lemma rejects_match_at: "rejects f r s \<Longrightarrow> suffix s' s \<Longrightarrow> match_at f r i p s' = None"
  by (simp add: match_at_def rejects_sound)

lemma rejects_search_from:
  "rejects f r s \<Longrightarrow> suffix s' s \<Longrightarrow> search_from f r i p s' = None"
proof (induction s' arbitrary: i p)
  case Nil
  then show ?case by (simp add: rejects_match_at)
next
  case (Cons c s')
  from Cons.prems(2) have "suffix s' s" by (rule suffix_ConsD)
  with Cons show ?case by (simp add: rejects_match_at)
qed

lemma rejects_sub_scan:
  "rejects f r s \<Longrightarrow> suffix s' s \<Longrightarrow> sub_scan f r repl 0 i p s' = s'"
proof (induction s' arbitrary: i p)
  case Nil
  then show ?case by (simp add: rejects_match_at)
next
  case (Cons c s')
  from Cons.prems(2) have "suffix s' s" by (rule suffix_ConsD)
  with Cons show ?case by (simp add: rejects_match_at)
qed


lemma star_lazy_dot:
  "dotall f \<Longrightarrow> length s \<le> k \<Longrightarrow> star_lazy (rx_ends f Dot) k (p, s, g) = suffix_states p s g"
proof (induction s arbitrary: k p)
  case Nil
  then show ?case by (cases k) (simp_all add: one_char_def)
next
  case (Cons c s)
  then obtain k' where k: "k = Suc k'" and le: "length s \<le> k'"
    by (cases k) auto
  from Cons.IH [OF Cons.prems(1) le]
  show ?case using Cons.prems(1) by (simp add: k one_char_def advances_def)
qed

lemma match_at_None: "match_at f r i p s = None \<longleftrightarrow> rx_ends f r (p, s, []) = []"
  by (simp add: match_at_def split: list.splits)

lemma search_from_None_suffixes:
  "search_from f r i p s = None \<Longrightarrow> st \<in> set (suffix_states p s []) \<Longrightarrow> rx_ends f r st = []"
proof (induction s arbitrary: i p)
  case Nil
  then show ?case by (simp add: match_at_None)
next
  case (Cons c s)
  from Cons.prems(1) have m: "match_at f r i p (c # s) = None" and
      rest: "search_from f r (Suc i) (Some c) s = None"
    by (auto split: option.splits)
  from Cons.prems(2) consider "st = (p, c # s, [])" | "st \<in> set (suffix_states (Some c) s [])"
    by auto
  then show ?case
  proof cases
    case 1
    with m show ?thesis by (simp add: match_at_None)
  next
    case 2
    with Cons.IH [OF rest] show ?thesis by blast
  qed
qed

lemma search_from_lazy_dot:
  assumes "dotall f"
  shows "search_from f r i p s = None \<Longrightarrow> search_from f (Seq (LStar Dot) r) i p s = None"
proof (induction s arbitrary: i p)
  case Nil
  then have "rx_ends f r (p, [], []) = []" by (simp add: match_at_None)
  then show ?case by (simp add: match_at_None remaining_def one_char_def)
next
  case (Cons c s)
  from Cons.prems have rest: "search_from f r (Suc i) (Some c) s = None"
    by (auto split: option.splits)
  have all: "\<And>st. st \<in> set (suffix_states p (c # s) []) \<Longrightarrow> rx_ends f r st = []"
    using search_from_None_suffixes [OF Cons.prems] by blast
  have "rx_ends f (Seq (LStar Dot) r) (p, c # s, []) =
          concat (map (rx_ends f r) (suffix_states p (c # s) []))"
    using star_lazy_dot [OF assms, of "c # s" "length (c # s)" p "[]"]
    by (simp add: remaining_def)
  also have "\<dots> = []"
    using all by (simp del: suffix_states.simps)
  finally have "match_at f (Seq (LStar Dot) r) i p (c # s) = None"
    by (simp add: match_at_None)
  with Cons.IH [OF rest] show ?case by simp
qed

lemma re_search_code [code]:
  "re_search r s f =
     (if rejects f r s then None
      else
        (case lazy_dot_body r of
           None \<Rightarrow> search_from f r 0 None s
         | Some r' \<Rightarrow>
             if dotall f then
               (case search_from f r' 0 None s of
                  None \<Rightarrow> None
                | Some m \<Rightarrow> search_from f r 0 None s)
             else search_from f r 0 None s))"
proof (cases "rejects f r s")
  case True
  then show ?thesis by (simp add: re_search_def rejects_search_from)
next
  case False
  show ?thesis
  proof (cases "lazy_dot_body r")
    case None
    with False show ?thesis by (simp add: re_search_def)
  next
    case (Some r')
    then have r: "r = Seq (LStar Dot) r'"
      by (induction r rule: lazy_dot_body.induct) simp_all
    show ?thesis
      using search_from_lazy_dot [of f r' 0 None s] False
      by (auto simp: Some re_search_def r split: option.splits)
  qed
qed

lemma re_match_code [code]:
  "re_match r s f = (if rejects f r s then None else match_at f r 0 None s)"
  by (simp add: re_match_def rejects_match_at)

lemma re_sub_fn_code [code]:
  "re_sub_fn r repl s f = (if rejects f r s then s else sub_scan f r repl 0 0 None s)"
  by (simp add: re_sub_fn_def rejects_sub_scan)

lemma remove_company_noise_code [code]:
  "remove_company_noise t =
     join [10] (filter_lines (split_on 10
       (foldl (\<lambda>c pattern. re_sub_fn pattern replace_if_not_course c IGNORECASE_MULTILINE)
          (foldl (\<lambda>c pattern. re_sub pattern [] c DOTALL_IGNORECASE) t company_blocks)
          company_noise_patterns)))"
  by (simp add: remove_company_noise_def Let_def)

section \<open>The shape of the assembler's result\<close>


lemma length_strip_le: "length (strip s) \<le> length s"
proof -
  have "length (dropWhile is_space (rev (dropWhile is_space s))) \<le> length (rev (dropWhile is_space s))"
    by (rule length_dropWhile_le)
  also have "\<dots> \<le> length s"
    by (simp add: length_dropWhile_le)
  finally show ?thesis by (simp add: strip_def)
qed

lemma Let_nonempty: "(\<And>x. f x \<noteq> []) \<Longrightarrow> Let a f \<noteq> []"
  by (simp add: Let_def)

lemma extract_precise_section1_nonempty: "extract_precise_section1 t raw \<noteq> []"
  unfolding extract_precise_section1_def
  by (intro Let_nonempty) (simp add: asc_def)

lemma extract_precise_section2_nonempty: "extract_precise_section2 t raw \<noteq> []"
  unfolding extract_precise_section2_def
  by (intro Let_nonempty) (simp add: asc_def)

lemma extract_precise_section3_nonempty: "extract_precise_section3 t raw \<noteq> []"
  unfolding extract_precise_section3_def
  by (intro Let_nonempty) (simp add: asc_def)

lemma create_fixed_sections_eq:
  "create_fixed_sections raw t =
     [(''section1_intro_duration'', extract_precise_section1 (clean_text t) raw),
      (''section2_objectives_audience'', extract_precise_section2 (clean_text t) raw),
      (''section3_content'', extract_precise_section3 (clean_text t) raw)]"
  by (simp add: create_fixed_sections_def Let_def)

lemma find_section_boundaries_Inr:
  "map_of section_configs name = Some config \<Longrightarrow> \<exists>b. find_section_boundaries t name = Inr b"
  by (simp add: find_section_boundaries_def Let_def split: option.splits)

lemma extract_section_content_Inr:
  assumes "map_of section_configs name = Some config"
  shows "\<exists>c. extract_section_content t name = Inr c"
proof -
  obtain b where b: "find_section_boundaries t name = Inr b"
    using find_section_boundaries_Inr [OF assms] by blast
  show ?thesis
    by (cases b) (auto simp: extract_section_content_def b assms Let_def)
qed

lemma collect_raw_sections_Inr:
  "set names \<subseteq> fst ` set section_configs \<Longrightarrow> \<exists>r. collect_raw_sections t names acc = Inr r"
proof (induction names arbitrary: acc)
  case Nil
  then show ?case by simp
next
  case (Cons n names)
  then have "n \<in> fst ` set section_configs" by simp
  then obtain config where "map_of section_configs n = Some config"
    by (metis map_of_eq_None_iff not_Some_eq)
  then obtain c where c: "extract_section_content t n = Inr c"
    using extract_section_content_Inr by blast
  from Cons show ?case by (simp add: c)
qed

lemma extract_course_info_short:
  "t = [] \<or> length (strip t) < 100 \<Longrightarrow> extract_course_info t = Inr []"
  by (auto simp: extract_course_info_def)

lemma extract_course_info_long:
  assumes "100 \<le> length (strip t)"
  shows "\<exists>raw. extract_course_info t =
     Inr [(''section1_intro_duration'', extract_precise_section1 (clean_text (clean_text t)) raw),
          (''section2_objectives_audience'', extract_precise_section2 (clean_text (clean_text t)) raw),
          (''section3_content'', extract_precise_section3 (clean_text (clean_text t)) raw)]"
proof -
  from assms have ne: "t \<noteq> []" by (auto simp: strip_def)
  obtain raw where raw: "collect_raw_sections (clean_text t) (map fst section_configs) [] = Inr raw"
    using collect_raw_sections_Inr [of "map fst section_configs"] by auto
  show ?thesis
    using assms ne by (auto simp: extract_course_info_def Let_def raw create_fixed_sections_eq)
qed


lemma section1_ignores_raw: "extract_precise_section1 t raw = extract_precise_section1 t []"
  by (simp only: extract_precise_section1_def)

lemma section2_ignores_raw: "extract_precise_section2 t raw = extract_precise_section2 t []"
  by (simp only: extract_precise_section2_def)

lemma section3_ignores_raw: "extract_precise_section3 t raw = extract_precise_section3 t []"
  by (simp only: extract_precise_section3_def)

lemma extract_course_info_sections:
  assumes "100 \<le> length (strip t)"
  shows "extract_course_info t =
     Inr [(''section1_intro_duration'', extract_precise_section1 (clean_text (clean_text t)) []),
          (''section2_objectives_audience'', extract_precise_section2 (clean_text (clean_text t)) []),
          (''section3_content'', extract_precise_section3 (clean_text (clean_text t)) [])]"
proof -
  from extract_course_info_long [OF assms] obtain raw where
    "extract_course_info t =
     Inr [(''section1_intro_duration'', extract_precise_section1 (clean_text (clean_text t)) raw),
          (''section2_objectives_audience'', extract_precise_section2 (clean_text (clean_text t)) raw),
          (''section3_content'', extract_precise_section3 (clean_text (clean_text t)) raw)]"
    by blast
  then show ?thesis
    using section1_ignores_raw [of _ raw] section2_ignores_raw [of _ raw] section3_ignores_raw [of _ raw]
    by simp
qed







section \<open>Evaluations at concrete inputs\<close>

lemma plain_prose_long: "100 \<le> length (strip plain_prose)"
  by code_simp

lemma format_doc_long: "100 \<le> length (strip duration_then_format_doc)"
  by code_simp








lemma format_doc_clean: "clean_text duration_then_format_doc = duration_then_format_doc"
  by code_simp

lemma format_doc_section1:
  "extract_precise_section1 duration_then_format_doc [] = (asc ''T'' @ [0x1ED5] @ asc ''ng quan kh'' @ [0xF3] @ asc ''a h'' @ [0x1ECD] @ asc ''c:'' @ [10]) @ duration_then_format_doc"
  by code_simp

section \<open>The claims\<close>




text \<open>
  C2 (corrected). The claim: every input of at least 100 characters gives exactly
  three non-empty sections. The guard of \<open>extract_course_info\<close> measures the input after
  \<open>strip()\<close>: for every input whose stripped length is at least 100 the result is
  exactly the three sections, in order, each a non-empty string.
\<close>

theorem C2_three_nonempty_sections:
  assumes "100 \<le> length (strip t)"
  shows "\<exists>s1 s2 s3. extract_course_info t =
           Inr [(''section1_intro_duration'', s1),
                (''section2_objectives_audience'', s2),
                (''section3_content'', s3)]
         \<and> s1 \<noteq> [] \<and> s2 \<noteq> [] \<and> s3 \<noteq> []"
  using extract_course_info_sections [OF assms]
    extract_precise_section1_nonempty extract_precise_section2_nonempty
    extract_precise_section3_nonempty
  by blast

theorem C2_witness:
  "100 \<le> length (strip duration_then_format_doc)
   \<and> (\<exists>s1 s2 s3. extract_course_info duration_then_format_doc =
           Inr [(''section1_intro_duration'', s1),
                (''section2_objectives_audience'', s2),
                (''section3_content'', s3)]
         \<and> s1 \<noteq> [] \<and> s2 \<noteq> [] \<and> s3 \<noteq> [])"
  using format_doc_long C2_three_nonempty_sections [OF format_doc_long] by blast

text \<open>
  The counterexample to C2: a title line followed by 100 line breaks has 125
  characters, 25 after \<open>strip()\<close>, and gives the empty result.
\<close>

theorem C2_counterexample:
  "100 \<le> length blank_padded_page \<and> extract_course_info blank_padded_page = Inr []"
proof -
  have "length (strip blank_padded_page) < 100" by code_simp
  then have "extract_course_info blank_padded_page = Inr []"
    by (simp add: extract_course_info_short)
  moreover have "100 \<le> length blank_padded_page"
    by (simp add: blank_padded_page_def)
  ultimately show ?thesis by simp
qed

text \<open>
  C3 (code bug). The claim: a line with both an address pattern and a course-structure
  keyword is kept verbatim by \<open>clean_text\<close>. On the line of the claim, "Module 3 -
  T\<dots>ng 5, Qu\<dots>n 1" with a dash U+2014, the third pass of \<open>remove_company_noise\<close> deletes
  the address match, which holds no course keyword, and leaves "Module 3" and the dash;
  the character filter turns the dash into a space and the last step drops the
  remaining 8 characters as an incomplete line. \<open>clean_text\<close> returns the empty string.
\<close>

theorem C3_module_address_line_lost:
  "remove_company_noise (fix_vietnamese_encoding module_address_line) = asc ''Module 3 '' @ [0x2014]
   \<and> clean_text module_address_line = []"
  by code_simp

text \<open>
  C4 (code bug). The claim: the intro_duration section holds no text of a "H\<dots>nh th\<dots>c
  \<dots>\<dots>o t\<dots>o" body that follows the duration statement, under every tier. In the document
  below the duration text is found and cut before the training-format heading, but it is
  shorter than 50 characters, so the fallback patterns run, and the first of them
  matches from "Kh\<dots>a h\<dots>c" to the end of the text: the section is the whole document,
  training-format body included.
\<close>

theorem C4_format_body_in_intro_duration:
  "\<exists>s2 s3. extract_course_info duration_then_format_doc =
       Inr [(''section1_intro_duration'', (asc ''T'' @ [0x1ED5] @ asc ''ng quan kh'' @ [0xF3] @ asc ''a h'' @ [0x1ECD] @ asc ''c:'' @ [10]) @ duration_then_format_doc),
            (''section2_objectives_audience'', s2),
            (''section3_content'', s3)]
     \<and> contains format_body ((asc ''T'' @ [0x1ED5] @ asc ''ng quan kh'' @ [0xF3] @ asc ''a h'' @ [0x1ECD] @ asc ''c:'' @ [10]) @ duration_then_format_doc)"
proof -
  have "contains format_body ((asc ''T'' @ [0x1ED5] @ asc ''ng quan kh'' @ [0xF3] @ asc ''a h'' @ [0x1ECD] @ asc ''c:'' @ [10]) @ duration_then_format_doc)"
    by code_simp
  then show ?thesis
    using extract_course_info_sections [OF format_doc_long]
    by (simp add: format_doc_clean format_doc_section1)
qed







text \<open>
  C7 (confirmed). An input that is empty or shorter than 100 characters gives the empty
  result, and no input makes the assembler fail: the only operation of the assembler
  that can raise is the lookup of a section name in \<open>section_configs\<close>, and the names
  it looks up are the keys of that dictionary.
\<close>

theorem C7_short_input_empty_no_exception:
  "(t = [] \<or> length t < 100 \<longrightarrow> extract_course_info t = Inr [])
   \<and> (\<exists>m. extract_course_info t = Inr m)"
proof -
  have "length (strip t) \<le> length t" by (rule length_strip_le)
  then have 1: "t = [] \<or> length t < 100 \<longrightarrow> extract_course_info t = Inr []"
    by (auto intro: extract_course_info_short)
  have 2: "\<exists>m. extract_course_info t = Inr m"
  proof (cases "100 \<le> length (strip t)")
    case True
    from extract_course_info_sections [OF this] show ?thesis by blast
  next
    case False
    then show ?thesis by (simp add: extract_course_info_short)
  qed
  from 1 2 show ?thesis by simp
qed

theorem C7_witness:
  "length (asc ''Robusta training brochure'') < 100
   \<and> extract_course_info (asc ''Robusta training brochure'') = Inr []"
  using C7_short_input_empty_no_exception [of "asc ''Robusta training brochure''"]
  by (simp add: asc_def)

text \<open>
  C8 (confirmed). For a document whose extraction succeeded (a non-empty result), the
  builder emits exactly three documents, in slot order, each holding the text of its
  section, the fixed title of its slot, and metadata with exactly the keys source,
  course_name, section, section_title, section_type.
\<close>

theorem C8_three_documents:
  assumes "extract_course_info (join [10] pages) = Inr info" and "info \<noteq> []"
  shows "map (\<lambda>d. (map_of (metadata d) ''section'', map_of (metadata d) ''section_title''))
           (load_pdf_file source course_name pages fallback_chunks) =
           [(Some (asc ''section1_intro_duration''), Some (asc ''Gi'' @ [0x1EDB] @ asc ''i thi'' @ [0x1EC7] @ asc ''u v'' @ [0xE0] @ asc '' Th'' @ [0x1EDD] @ asc ''i l'' @ [0x1B0, 0x1EE3] @ asc ''ng'')),
            (Some (asc ''section2_objectives_audience''), Some (asc ''M'' @ [0x1EE5] @ asc ''c ti'' @ [0xEA] @ asc ''u v'' @ [0xE0] @ asc '' '' @ [0x110, 0x1ED1] @ asc ''i t'' @ [0x1B0, 0x1EE3] @ asc ''ng'')),
            (Some (asc ''section3_content''), Some (asc ''N'' @ [0x1ED9] @ asc ''i dung Kh'' @ [0xF3] @ asc ''a h'' @ [0x1ECD] @ asc ''c''))]
         \<and> map page_content (load_pdf_file source course_name pages fallback_chunks) = map snd info
         \<and> list_all (\<lambda>d. map fst (metadata d) =
               [''source'', ''course_name'', ''section'', ''section_title'', ''section_type''])
             (load_pdf_file source course_name pages fallback_chunks)"
proof -
  have long: "100 \<le> length (strip (join [10] pages))"
  proof (rule ccontr)
    assume "\<not> 100 \<le> length (strip (join [10] pages))"
    then have "extract_course_info (join [10] pages) = Inr []"
      by (simp add: extract_course_info_short)
    with assms show False by simp
  qed
  from extract_course_info_sections [OF long] assms(1)
  obtain s1 s2 s3 where info: "info = [(''section1_intro_duration'', s1),
      (''section2_objectives_audience'', s2), (''section3_content'', s3)]"
    by simp
  show ?thesis
    by (simp add: load_pdf_file_def assms(1) info loader_section_configs_def section_document_def)
qed

theorem C8_witness:
  "\<exists>info. extract_course_info (join [10] [plain_prose]) = Inr info \<and> info \<noteq> []
     \<and> map (\<lambda>d. (map_of (metadata d) ''section'', map_of (metadata d) ''section_title''))
           (load_pdf_file (asc ''course.pdf'') (asc ''course'') [plain_prose] []) =
           [(Some (asc ''section1_intro_duration''), Some (asc ''Gi'' @ [0x1EDB] @ asc ''i thi'' @ [0x1EC7] @ asc ''u v'' @ [0xE0] @ asc '' Th'' @ [0x1EDD] @ asc ''i l'' @ [0x1B0, 0x1EE3] @ asc ''ng'')),
            (Some (asc ''section2_objectives_audience''), Some (asc ''M'' @ [0x1EE5] @ asc ''c ti'' @ [0xEA] @ asc ''u v'' @ [0xE0] @ asc '' '' @ [0x110, 0x1ED1] @ asc ''i t'' @ [0x1B0, 0x1EE3] @ asc ''ng'')),
            (Some (asc ''section3_content''), Some (asc ''N'' @ [0x1ED9] @ asc ''i dung Kh'' @ [0xF3] @ asc ''a h'' @ [0x1ECD] @ asc ''c''))]
     \<and> map page_content (load_pdf_file (asc ''course.pdf'') (asc ''course'') [plain_prose] []) = map snd info
     \<and> list_all (\<lambda>d. map fst (metadata d) =
               [''source'', ''course_name'', ''section'', ''section_title'', ''section_type''])
             (load_pdf_file (asc ''course.pdf'') (asc ''course'') [plain_prose] [])"
proof -
  have "100 \<le> length (strip (join [10] [plain_prose]))"
    using plain_prose_long by simp
  from extract_course_info_sections [OF this]
  obtain info where 1: "extract_course_info (join [10] [plain_prose]) = Inr info" and 2: "info \<noteq> []"
    by simp
  from C8_three_documents [OF 1 2, of "asc ''course.pdf''" "asc ''course''" "[]"]
  show ?thesis using 1 2 by (intro exI [of _ info]) simp
qed

text \<open>
  C9 (code bug). The claim: a returned span satisfies \<open>0 \<le> start < end \<le> len(text)\<close>.
  The start is an offset into \<open>text.lower()\<close>, which is longer than \<open>text\<close> where
  \<open>text\<close> holds a capital I with dot above; the end is an offset into \<open>text\<close>. For nine
  such letters followed by "t\<dots>ng quan" the span of the overview section is (18, 18)
  in a text of 18 characters, and the slice it selects is empty.
\<close>

theorem C9_span_not_well_formed:
  "length dotted_capitals_text = 18
   \<and> find_section_boundaries dotted_capitals_text ''overview'' = Inr (Some (18, 18))
   \<and> slice 18 18 dotted_capitals_text = []"
  by code_simp

text \<open>
  C10 (confirmed). The result of \<open>extract_course_info\<close> is the empty dictionary or the
  dictionary of exactly the three section keys, so a caller's test for a non-empty
  result with at least two entries is the test for a non-empty result.
\<close>

theorem C10_all_or_nothing:
  "\<exists>m. extract_course_info t = Inr m
     \<and> (m = [] \<or> map fst m = [''section1_intro_duration'', ''section2_objectives_audience'', ''section3_content''])
     \<and> ((m \<noteq> [] \<and> 2 \<le> length m) = (m \<noteq> []))"
proof (cases "100 \<le> length (strip t)")
  case True
  from extract_course_info_sections [OF this] show ?thesis by simp
next
  case False
  then show ?thesis by (simp add: extract_course_info_short)
qed

end
